theory Spec2Isabelle
  imports Complex_Main
begin

section \<open>Numbers\<close>

text \<open>
  The scene is written in TypeScript and GLSL. Every JavaScript \<open>number\<close> and every GLSL
  \<open>float\<close> is modelled as a \<^typ>\<open>real\<close>: arithmetic is exact, \<open>Math.sin\<close>, \<open>Math.cos\<close>,
  \<open>Math.sqrt\<close> and \<open>Math.pow\<close> are the real functions \<^const>\<open>sin\<close>, \<^const>\<open>cos\<close>,
  \<^const>\<open>sqrt\<close> and \<^const>\<open>powr\<close>. Rounding to binary64 or binary32 (also when a value is stored
  in a \<open>Float32Array\<close>) is not part of the model. A quotient whose divisor is zero has
  no finite value in the program; such a quotient is \<^const>\<open>None\<close> here.
\<close>

definition js_div :: "real \<Rightarrow> real \<Rightarrow> real option" where
  "js_div a b = (if b = 0 then None else Some (a / b))"


section \<open>The sparkle vertex shader\<close>

datatype vec2 = Vec2 (v2x: real) (v2y: real)
datatype vec3 = Vec3 (v3x: real) (v3y: real) (v3z: real)
datatype vec4 = Vec4 (v4x: real) (v4y: real) (v4z: real) (v4w: real)

text \<open>Matrices are column major, as GLSL constructors take them.\<close>

datatype mat2 = Mat2 real real real real
datatype mat4 = Mat4 vec4 vec4 vec4 vec4

fun mat2_mul :: "mat2 \<Rightarrow> vec2 \<Rightarrow> vec2" where
  "mat2_mul (Mat2 a b c d) (Vec2 u v) = Vec2 (a * u + c * v) (b * u + d * v)"

fun vec4_scale :: "real \<Rightarrow> vec4 \<Rightarrow> vec4" where
  "vec4_scale k (Vec4 a b c d) = Vec4 (k * a) (k * b) (k * c) (k * d)"

fun vec4_add :: "vec4 \<Rightarrow> vec4 \<Rightarrow> vec4" where
  "vec4_add (Vec4 a b c d) (Vec4 a' b' c' d') = Vec4 (a + a') (b + b') (c + c') (d + d')"

fun mat4_mul :: "mat4 \<Rightarrow> vec4 \<Rightarrow> vec4" where
  "mat4_mul (Mat4 c0 c1 c2 c3) (Vec4 a b c d) =
     vec4_add (vec4_add (vec4_scale a c0) (vec4_scale b c1))
              (vec4_add (vec4_scale c c2) (vec4_scale d c3))"

fun vec3_add :: "vec3 \<Rightarrow> vec3 \<Rightarrow> vec3" where
  "vec3_add (Vec3 a b c) (Vec3 a' b' c') = Vec3 (a + a') (b + b') (c + c')"

text \<open>\<open>getTurbulence(p, t)\<close>: the sine-based displacement.\<close>

definition getTurbulence :: "vec3 \<Rightarrow> real \<Rightarrow> vec3" where
  "getTurbulence p t =
     (let x = sin (v3y p * 1.5 + t) * 0.08 + sin (v3z p * 1.0 + t * 0.5) * 0.04;
          y = cos (v3x p * 1.0 + t) * 0.08 + sin (v3z p * 1.5 + t * 0.6) * 0.04;
          z = sin (v3x p * 1.2 + t * 0.7) * 0.08 + cos (v3y p * 1.0 + t) * 0.04
      in Vec3 x y z)"

text \<open>\<open>rot2d(a)\<close>: \<open>mat2(c, s, -s, c)\<close>.\<close>

definition rot2d :: "real \<Rightarrow> mat2" where
  "rot2d a = (let s = sin a; c = cos a in Mat2 c s (- s) c)"

record uniforms =
  uTime :: real
  uPixelRatio :: real
  modelViewMatrix :: mat4
  projectionMatrix :: mat4

record attributes =
  a_position :: vec3
  a_size :: real
  a_speed :: real
  a_phase :: real
  a_color :: vec3

record vertex_out =
  vColor :: vec3
  vOpacity :: real
  vIntensity :: real
  gl_Position :: vec4
  gl_PointSize :: "real option"

text \<open>
  The locals of \<open>main\<close>, in the order the shader computes them. \<open>displaced\<close> is \<open>p\<close>
  after the vortex rotation and the turbulence, \<open>mvPosition\<close> its view-space position.
\<close>

definition displaced :: "uniforms \<Rightarrow> attributes \<Rightarrow> vec3" where
  "displaced U A =
     (let p = a_position A;
          rotSpeed = 0.2;
          twistAmt = 0.25;
          theta = uTime U * rotSpeed + v3y p * twistAmt;
          xz = mat2_mul (rot2d theta) (Vec2 (v3x p) (v3z p));
          p = Vec3 (v2x xz) (v3y p) (v2y xz)
      in vec3_add p (getTurbulence p (uTime U * 0.5)))"

definition mvPosition :: "uniforms \<Rightarrow> attributes \<Rightarrow> vec4" where
  "mvPosition U A =
     (let p = displaced U A
      in mat4_mul (modelViewMatrix U) (Vec4 (v3x p) (v3y p) (v3z p) 1.0))"

definition sineWave :: "real \<Rightarrow> real \<Rightarrow> real \<Rightarrow> real" where
  "sineWave time speed phase = (let t = time * speed + phase in 0.5 + 0.5 * sin t)"

definition sizePulse :: "real \<Rightarrow> real \<Rightarrow> real \<Rightarrow> real" where
  "sizePulse time speed phase = 0.8 + 0.4 * sineWave time speed phase"

text \<open>
  \<open>main\<close> of \<open>sparkleVertexShader\<close>. The quotient \<open>200.0 / -mvPosition.z\<close> has no
  specified value when \<open>mvPosition.z\<close> is zero, so \<open>gl_PointSize\<close> is an option.
\<close>

definition sparkleVertexShader :: "uniforms \<Rightarrow> attributes \<Rightarrow> vertex_out" where
  "sparkleVertexShader U A =
     (let mv = mvPosition U A;
          sw = sineWave (uTime U) (a_speed A) (a_phase A);
          pulse = sizePulse (uTime U) (a_speed A) (a_phase A)
      in \<lparr> vColor = a_color A,
           vOpacity = 0.5 + 0.5 * sw,
           vIntensity = 0.8 + 2.2 * sw,
           gl_Position = mat4_mul (projectionMatrix U) mv,
           gl_PointSize =
             map_option (\<lambda>q. a_size A * pulse * uPixelRatio U * q)
               (js_div 200.0 (- v4z mv)) \<rparr>)"


section \<open>The random source and the library's colours\<close>

text \<open>
  \<open>Math.random()\<close> is an input of the model: \<open>rnd k\<close> is the value of the \<open>k\<close>-th call,
  and every generator threads the number of calls made so far. ECMAScript promises
  values in \<open>[0, 1)\<close>; \<open>random_in_range\<close> states that promise.
\<close>

type_synonym rng = "nat \<Rightarrow> real"

definition random_in_range :: "rng \<Rightarrow> bool" where
  "random_in_range rnd \<longleftrightarrow> (\<forall>k. 0 \<le> rnd k \<and> rnd k < 1)"

record rgb =
  col_r :: real
  col_g :: real
  col_b :: real

text \<open>
  \<open>new THREE.Color(hex)\<close> and \<open>new THREE.Color().setHSL(h, s, l)\<close> are code of the
  rendering library; they enter the model as parameters. \<open>lerp\<close> is the library's linear
  interpolation of the three channels.
\<close>

record three =
  Color :: "nat \<Rightarrow> rgb"
  Color_setHSL :: "real \<Rightarrow> real \<Rightarrow> real \<Rightarrow> rgb"

definition lerp :: "rgb \<Rightarrow> rgb \<Rightarrow> real \<Rightarrow> rgb" where
  "lerp c color alpha =
     \<lparr> col_r = col_r c + (col_r color - col_r c) * alpha,
       col_g = col_g c + (col_g color - col_g c) * alpha,
       col_b = col_b c + (col_b color - col_b c) * alpha \<rparr>"

datatype js_error = TypeError

text \<open>Reading \<open>xs[i]\<close>: \<open>undefined\<close> (here \<^const>\<open>None\<close>) outside the array.\<close>

definition js_index :: "'a list \<Rightarrow> int \<Rightarrow> 'a option" where
  "js_index xs i = (if 0 \<le> i \<and> i < int (length xs) then Some (xs ! nat i) else None)"


section \<open>The procedural point generators\<close>

text \<open>The five JavaScript arrays a generator pushes to.\<close>

record particle_arrays =
  positions :: "real list"
  colors :: "real list"
  sizes :: "real list"
  speeds :: "real list"
  phases :: "real list"

definition no_particles :: particle_arrays where
  "no_particles = \<lparr> positions = [], colors = [], sizes = [], speeds = [], phases = [] \<rparr>"

text \<open>
  \<open>for (let i = 0; i < count; i++) body\<close>, on a state \<open>s\<close>. No body reads \<open>i\<close>.
  \<open>for_loop_try\<close> is the loop whose body may throw: the exception ends the loop.
\<close>

function for_loop :: "nat \<Rightarrow> nat \<Rightarrow> ('s \<Rightarrow> 's) \<Rightarrow> 's \<Rightarrow> 's" where
  "for_loop i count body s = (if i < count then for_loop (i + 1) count body (body s) else s)"
  by pat_completeness auto
termination
  by (relation "measure (\<lambda>(i, count, body, s). count - i)") auto

declare for_loop.simps [simp del]

function for_loop_try :: "nat \<Rightarrow> nat \<Rightarrow> ('s \<Rightarrow> js_error + 's) \<Rightarrow> 's \<Rightarrow> js_error + 's" where
  "for_loop_try i count body s =
     (if i < count
      then (case body s of Inl e \<Rightarrow> Inl e | Inr s' \<Rightarrow> for_loop_try (i + 1) count body s')
      else Inr s)"
  by pat_completeness auto
termination
  by (relation "measure (\<lambda>(i, count, body, s). count - i)") auto

declare for_loop_try.simps [simp del]

subsection \<open>Tiered glitter tree\<close>

text \<open>The palette: 0xFF007F, 0xFF1493, 0xC71585, 0xFFD700, 0xFF69B4.\<close>

definition palette :: "three \<Rightarrow> rgb list" where
  "palette T = [Color T 16711807, Color T 16716947, Color T 13047173,
                Color T 16766720, Color T 16738740]"

text \<open>
  One iteration of the tree loop. It makes eight calls of \<open>Math.random()\<close>. The palette
  entry is cloned; cloning \<open>undefined\<close> throws a \<open>TypeError\<close>. The two blends are towards
  0xFFD700 and 0x880022. The divisors are the constants 8 and 12 and the height
  \<open>tierHeightEnd - tierHeightStart\<close> of a tier, which is 1.35; none is zero.
\<close>

definition tree_body :: "three \<Rightarrow> rng \<Rightarrow> particle_arrays \<times> nat \<Rightarrow> js_error + particle_arrays \<times> nat" where
  "tree_body T rnd = (\<lambda>(a, k).
     let tiers = 8;
         totalHeight = 12;
         maxRadius = 5.5;
         tierIndex = \<lfloor>rnd k * tiers\<rfloor>;
         tierHeightStart = (real_of_int tierIndex / tiers) * totalHeight;
         tierHeightEnd = ((real_of_int tierIndex + 0.9) / tiers) * totalHeight;
         y = tierHeightStart + rnd (k + 1) * (tierHeightEnd - tierHeightStart);
         tierProgress = (y - tierHeightStart) / (tierHeightEnd - tierHeightStart);
         overallProgress = y / totalHeight;
         radiusAtY = maxRadius * (1 - overallProgress);
         radiusAtY = radiusAtY * (1.0 + 0.3 * (1 - tierProgress));
         rRatio = rnd (k + 2) powr 0.8;
         r = radiusAtY * rRatio;
         theta = rnd (k + 3) * pi * 2;
         x = r * cos theta;
         z = r * sin theta;
         positions' = positions a @ [x, y - 6, z]
     in case js_index (palette T) \<lfloor>rnd (k + 4) * real (length (palette T))\<rfloor> of
          None \<Rightarrow> Inl TypeError
        | Some colorRef \<Rightarrow>
            let c = colorRef;
                c = (if rRatio > 0.85 then lerp c (Color T 16766720) 0.4 else c);
                c = (if rRatio < 0.3 then lerp c (Color T 8912930) 0.6 else c)
            in Inr (\<lparr> positions = positions',
                      colors = colors a @ [col_r c, col_g c, col_b c],
                      sizes = sizes a @ [0.2 + rnd (k + 5) * 0.4],
                      speeds = speeds a @ [1.0 + rnd (k + 6) * 3.0],
                      phases = phases a @ [rnd (k + 7) * pi * 2] \<rparr>, k + 8))"

subsection \<open>Solid heart topper\<close>

text \<open>One iteration of the heart loop: seven calls of \<open>Math.random()\<close>. The colours are
  0xFF0055 and 0xFFD700.\<close>

definition heart_body :: "three \<Rightarrow> rng \<Rightarrow> particle_arrays \<times> nat \<Rightarrow> particle_arrays \<times> nat" where
  "heart_body T rnd = (\<lambda>(a, k).
     let t = rnd k * pi * 2;
         x = 16 * sin t ^ 3;
         y = 13 * cos t - 5 * cos (2 * t) - 2 * cos (3 * t) - cos (4 * t);
         z = (rnd (k + 1) - 0.5) * 6;
         scaleVol = sqrt (rnd (k + 2));
         x = x * scaleVol;
         y = y * scaleVol;
         z = z * scaleVol;
         c = Color T (if rnd (k + 3) > 0.3 then 16711765 else 16766720)
     in (\<lparr> positions = positions a @ [x * 0.05, y * 0.05 + 6.2, z * 0.05],
           colors = colors a @ [col_r c, col_g c, col_b c],
           sizes = sizes a @ [0.3 + rnd (k + 4) * 0.4],
           speeds = speeds a @ [2.0 + rnd (k + 5) * 3.0],
           phases = phases a @ [rnd (k + 6) * pi * 2] \<rparr>, k + 7))"

subsection \<open>Swirling base\<close>

definition base_body :: "three \<Rightarrow> rng \<Rightarrow> particle_arrays \<times> nat \<Rightarrow> particle_arrays \<times> nat" where
  "base_body T rnd = (\<lambda>(a, k).
     let r = 3 + rnd k * 12;
         angle = (rnd (k + 1) * pi * 2) + (r * 0.3);
         x = r * cos angle;
         z = r * sin angle;
         y = - 6 + sin (r * 0.5 + angle) * 0.15;
         c = Color_setHSL T (0.9 + rnd (k + 2) * 0.1) 0.7 0.5
     in (\<lparr> positions = positions a @ [x, y, z],
           colors = colors a @ [col_r c, col_g c, col_b c],
           sizes = sizes a @ [0.2 + rnd (k + 3) * 0.2],
           speeds = speeds a @ [1.0 + rnd (k + 4)],
           phases = phases a @ [rnd (k + 5) * 10] \<rparr>, k + 6))"

subsection \<open>Ambient snow\<close>

definition snow_body :: "rng \<Rightarrow> real list \<times> nat \<Rightarrow> real list \<times> nat" where
  "snow_body rnd = (\<lambda>(pos, k).
     (pos @ [(rnd k - 0.5) * 50, (rnd (k + 1) - 0.5) * 40, (rnd (k + 2) - 0.5) * 50],
      k + 3))"

subsection \<open>Geometries, materials and point systems\<close>

record buffer_attribute =
  array :: "real list"
  itemSize :: nat

definition Float32BufferAttribute :: "real list \<Rightarrow> nat \<Rightarrow> buffer_attribute" where
  "Float32BufferAttribute xs n = \<lparr> array = xs, itemSize = n \<rparr>"

text \<open>The number of items of an attribute: the array's length over the item size.\<close>

definition attr_count :: "buffer_attribute \<Rightarrow> nat" where
  "attr_count b = length (array b) div itemSize b"

text \<open>
  The attributes a geometry was given by \<open>setAttribute\<close>. Every geometry of the scene
  has \<open>position\<close>; the other four are absent from the snow.
\<close>

record buffer_geometry =
  attr_position :: buffer_attribute
  attr_color :: "buffer_attribute option"
  attr_size :: "buffer_attribute option"
  attr_speed :: "buffer_attribute option"
  attr_phase :: "buffer_attribute option"

datatype blending = NormalBlending | AdditiveBlending

text \<open>
  \<open>ShaderMaterial\<close> is the material with the shared uniforms and the sparkle shader
  pair; its arguments are blending, depthWrite, transparent and the opacity option.
  \<open>PointsMaterial\<close> is the library's uniform point material: colour, size, opacity,
  transparent, depthWrite, blending; its map is the bokeh texture.
\<close>

datatype material =
    ShaderMaterial blending bool bool "real option"
  | PointsMaterial nat real real bool bool blending

record points =
  geometry :: buffer_geometry
  material :: material
  scale :: vec3

definition sparkle_geometry :: "particle_arrays \<Rightarrow> buffer_geometry" where
  "sparkle_geometry a =
     \<lparr> attr_position = Float32BufferAttribute (positions a) 3,
       attr_color = Some (Float32BufferAttribute (colors a) 3),
       attr_size = Some (Float32BufferAttribute (sizes a) 1),
       attr_speed = Some (Float32BufferAttribute (speeds a) 1),
       attr_phase = Some (Float32BufferAttribute (phases a) 1) \<rparr>"

definition new_Points :: "buffer_geometry \<Rightarrow> material \<Rightarrow> points" where
  "new_Points g m = \<lparr> geometry = g, material = m, scale = Vec3 1 1 1 \<rparr>"

text \<open>
  Each generator, for a particle count \<open>count\<close> and \<open>k\<close> earlier calls of
  \<open>Math.random()\<close>; it returns the point system and the number of calls made. The
  scene's own generators fix the counts: 40000, 3500, 4000 and 1500.
\<close>

definition glitterTree :: "nat \<Rightarrow> three \<Rightarrow> rng \<Rightarrow> nat \<Rightarrow> js_error + points \<times> nat" where
  "glitterTree count T rnd k =
     (case for_loop_try 0 count (tree_body T rnd) (no_particles, k) of
        Inl e \<Rightarrow> Inl e
      | Inr (a, k') \<Rightarrow>
          Inr (new_Points (sparkle_geometry a) (ShaderMaterial NormalBlending False True None), k'))"

definition solidHeart :: "nat \<Rightarrow> three \<Rightarrow> rng \<Rightarrow> nat \<Rightarrow> points \<times> nat" where
  "solidHeart count T rnd k =
     (case for_loop 0 count (heart_body T rnd) (no_particles, k) of
        (a, k') \<Rightarrow>
          (new_Points (sparkle_geometry a) (ShaderMaterial NormalBlending False True None), k'))"

definition swirlingBase :: "nat \<Rightarrow> three \<Rightarrow> rng \<Rightarrow> nat \<Rightarrow> points \<times> nat" where
  "swirlingBase count T rnd k =
     (case for_loop 0 count (base_body T rnd) (no_particles, k) of
        (a, k') \<Rightarrow>
          (new_Points (sparkle_geometry a)
             (ShaderMaterial AdditiveBlending False True (Some 0.5)), k'))"

text \<open>The snow material's colour is 0xFFEEEE.\<close>

definition snow :: "nat \<Rightarrow> rng \<Rightarrow> nat \<Rightarrow> points \<times> nat" where
  "snow count rnd k =
     (case for_loop 0 count (snow_body rnd) ([], k) of
        (pos, k') \<Rightarrow>
          (new_Points
             \<lparr> attr_position = Float32BufferAttribute pos 3,
               attr_color = None, attr_size = None, attr_speed = None, attr_phase = None \<rparr>
             (PointsMaterial 16772846 0.1 0.3 True False AdditiveBlending), k'))"

definition createGlitterTree :: "three \<Rightarrow> rng \<Rightarrow> nat \<Rightarrow> js_error + points \<times> nat" where
  "createGlitterTree = glitterTree 40000"

definition createSolidHeart :: "three \<Rightarrow> rng \<Rightarrow> nat \<Rightarrow> points \<times> nat" where
  "createSolidHeart = solidHeart 3500"

definition createSwirlingBase :: "three \<Rightarrow> rng \<Rightarrow> nat \<Rightarrow> points \<times> nat" where
  "createSwirlingBase = swirlingBase 4000"

definition createSnow :: "rng \<Rightarrow> nat \<Rightarrow> points \<times> nat" where
  "createSnow = snow 1500"


section \<open>The scene: construction, frames, resize and teardown\<close>

text \<open>
  The canvas behind the bokeh texture is 64 by 64. With a 2D context it is filled with
  the radial gradient (stops at 0, 0.3, 0.5 and 1); without one it stays blank. Only
  \<open>dispose()\<close> would set \<open>tex_disposed\<close>.
\<close>

datatype canvas_image =
    Blank
  | RadialGradient "(real \<times> string) list"

record canvas_texture =
  tex_width :: nat
  tex_height :: nat
  tex_image :: canvas_image
  tex_disposed :: bool

text \<open>\<open>createBokehTexture\<close>; the argument says whether \<open>getContext('2d')\<close> gave a context.\<close>

definition createBokehTexture :: "bool \<Rightarrow> canvas_texture" where
  "createBokehTexture ctx =
     \<lparr> tex_width = 64, tex_height = 64,
       tex_image =
         (if ctx
          then RadialGradient [(0, ''rgba(255,255,255,1.0)''), (0.3, ''rgba(255,255,255,0.8)''),
                               (0.5, ''rgba(255,255,255,0.2)''), (1, ''rgba(0,0,0,0)'')]
          else Blank),
       tex_disposed = False \<rparr>"

text \<open>
  What the effect reads from outside: the mount container's client size (\<^const>\<open>None\<close>
  when \<open>mountRef.current\<close> is null), \<open>window.devicePixelRatio\<close>, whether a 2D context
  is available, the random source, the library's colours and the clock's reading at the
  first frame.
\<close>

record environment =
  env_mount :: "(nat \<times> nat) option"
  env_devicePixelRatio :: real
  env_context2d :: bool
  env_random :: rng
  env_three :: three
  env_time :: real

datatype node = TreeNode | HeartNode | BaseNode | SnowNode

text \<open>
  Everything the effect allocates, as far as the component itself reads or writes it
  (the fog, the tone mapping and the bloom settings are constants of the library's
  objects). \<open>raf_pending\<close> holds the handles of the scheduled
  \<open>animate\<close> callbacks and \<open>raf_next\<close> is the next handle \<open>requestAnimationFrame\<close> gives
  out; \<open>resize_listener\<close> says whether \<open>onWindowResize\<close> is registered on the window;
  \<open>frames_rendered\<close> counts the calls of \<open>composer.render()\<close>.
\<close>

record scene =
  camera_aspect :: "real option"
  renderer_size :: "nat \<times> nat"
  renderer_pixelRatio :: real
  renderer_disposed :: bool
  composer_size :: "nat \<times> nat"
  globalUniforms_uTime :: real
  globalUniforms_uPixelRatio :: real
  globalUniforms_pointTexture :: canvas_texture
  scene_children :: "node list"
  treeSystem :: points
  heartSystem :: points
  baseSystem :: points
  snowSystem :: points
  animationFrameId :: "nat option"
  raf_pending :: "nat list"
  raf_next :: nat
  resize_listener :: bool
  frames_rendered :: nat

text \<open>
  The snow update of one frame: the body of the loop at index \<open>i\<close>, and the loop
  \<open>for (let i = 1; i < pos.length; i += 3)\<close>. The loop starts at 1, so \<open>i - 1\<close> is
  an index of the buffer whenever \<open>i\<close> is.
\<close>

definition snow_step :: "real \<Rightarrow> nat \<Rightarrow> real list \<Rightarrow> real list" where
  "snow_step time i pos =
     (let pos = pos[i := pos ! i - 0.03];
          pos = pos[i - 1 := pos ! (i - 1) + sin (time * 0.5 + pos ! i) * 0.01]
      in if pos ! i < - 20 then pos[i := 20] else pos)"

function snow_loop :: "real \<Rightarrow> nat \<Rightarrow> real list \<Rightarrow> real list" where
  "snow_loop time i pos =
     (if i < length pos then snow_loop time (i + 3) (snow_step time i pos) else pos)"
  by pat_completeness auto
termination
  by (relation "measure (\<lambda>(time, i, pos). length pos - i)")
     (auto simp: snow_step_def Let_def)

declare snow_loop.simps [simp del]

definition snow_positions :: "scene \<Rightarrow> real list" where
  "snow_positions s = array (attr_position (geometry (snowSystem s)))"

definition set_position_array :: "real list \<Rightarrow> points \<Rightarrow> points" where
  "set_position_array pos p =
     p\<lparr> geometry := (geometry p)\<lparr> attr_position := (attr_position (geometry p))\<lparr> array := pos \<rparr> \<rparr> \<rparr>"

text \<open>
  \<open>animate\<close>, run at clock reading \<open>time\<close>: it schedules itself first and keeps the
  handle, then writes the time uniform, the heart's scale and the snow buffer, and
  renders. The orbit controls' update and the drawing itself are the library's; of
  the drawing the model keeps the count of rendered frames.
\<close>

definition animate :: "real \<Rightarrow> scene \<Rightarrow> scene" where
  "animate time s =
     (let s = s\<lparr> animationFrameId := Some (raf_next s),
                raf_pending := raf_pending s @ [raf_next s],
                raf_next := raf_next s + 1 \<rparr>;
          s = s\<lparr> globalUniforms_uTime := time \<rparr>;
          beat = 1 + sin (time * 3) * 0.05;
          s = s\<lparr> heartSystem := (heartSystem s)\<lparr> scale := Vec3 beat beat beat \<rparr> \<rparr>;
          pos = snow_positions s;
          s = s\<lparr> snowSystem := set_position_array (snow_loop time 1 pos) (snowSystem s) \<rparr>
      in s\<lparr> frames_rendered := frames_rendered s + 1 \<rparr>)"

text \<open>\<open>onWindowResize\<close>, with the container and device pixel ratio it reads.\<close>

definition onWindowResize :: "(nat \<times> nat) option \<Rightarrow> real \<Rightarrow> scene \<Rightarrow> scene" where
  "onWindowResize mnt dpr s =
     (case mnt of
        None \<Rightarrow> s
      | Some (w, h) \<Rightarrow>
          s\<lparr> camera_aspect := js_div (real w) (real h),
             renderer_size := (w, h),
             composer_size := (w, h),
             globalUniforms_uPixelRatio := min dpr 2 \<rparr>)"

text \<open>The function the effect returns for teardown.\<close>

definition cleanup :: "scene \<Rightarrow> scene" where
  "cleanup s =
     s\<lparr> resize_listener := False,
        raf_pending :=
          (case animationFrameId s of
             None \<Rightarrow> raf_pending s
           | Some h \<Rightarrow> removeAll h (raf_pending s)),
        renderer_disposed := True,
        scene_children := [] \<rparr>"

text \<open>
  The body of \<open>useEffect\<close>. Without a mount container it returns at once and nothing
  is built (\<^const>\<open>None\<close>). An exception of the tree generator leaves the effect.
\<close>

definition effect :: "environment \<Rightarrow> js_error + scene option" where
  "effect env =
     (case env_mount env of
        None \<Rightarrow> Inr None
      | Some (width, height) \<Rightarrow>
          let bokeh = createBokehTexture (env_context2d env) in
          (case createGlitterTree (env_three env) (env_random env) 0 of
             Inl e \<Rightarrow> Inl e
           | Inr (tree, k1) \<Rightarrow>
               let (heart, k2) = createSolidHeart (env_three env) (env_random env) k1;
                   (base, k3) = createSwirlingBase (env_three env) (env_random env) k2;
                   (snw, k4) = createSnow (env_random env) k3;
                   s = \<lparr> camera_aspect = js_div (real width) (real height),
                         renderer_size = (width, height),
                         renderer_pixelRatio = min (env_devicePixelRatio env) 2,
                         renderer_disposed = False,
                         composer_size = (width, height),
                         globalUniforms_uTime = 0,
                         globalUniforms_uPixelRatio = min (env_devicePixelRatio env) 2,
                         globalUniforms_pointTexture = bokeh,
                         scene_children = [TreeNode, HeartNode, BaseNode, SnowNode],
                         treeSystem = tree,
                         heartSystem = heart,
                         baseSystem = base,
                         snowSystem = snw,
                         animationFrameId = None,
                         raf_pending = [],
                         raf_next = 1,
                         resize_listener = False,
                         frames_rendered = 0 \<rparr>;
                   s = animate (env_time env) s
               in Inr (Some (s\<lparr> resize_listener := True \<rparr>))))"

text \<open>
  What the browser does to a mounted scene: a display refresh at clock reading \<open>time\<close>
  runs the callbacks scheduled before it, and a window resize calls the listener if it
  is registered.
\<close>

datatype event =
    AnimationFrame real
  | WindowResize "(nat \<times> nat) option" real

fun dispatch :: "event \<Rightarrow> scene \<Rightarrow> scene" where
  "dispatch (AnimationFrame time) s =
     fold (\<lambda>h. animate time) (raf_pending s) (s\<lparr> raf_pending := [] \<rparr>)"
| "dispatch (WindowResize mnt dpr) s =
     (if resize_listener s then onWindowResize mnt dpr s else s)"

definition run :: "event list \<Rightarrow> scene \<Rightarrow> scene" where
  "run evs s = fold dispatch evs s"


section \<open>Reading a position buffer\<close>

text \<open>
  A position buffer holds three numbers for each particle: the \<open>i\<close>-th particle's
  \<open>x\<close>, \<open>y\<close> and \<open>z\<close> are at \<open>3 i\<close>, \<open>3 i + 1\<close> and \<open>3 i + 2\<close>.
\<close>

definition particle_x :: "real list \<Rightarrow> nat \<Rightarrow> real" where
  "particle_x pos i = pos ! (3 * i)"

definition particle_y :: "real list \<Rightarrow> nat \<Rightarrow> real" where
  "particle_y pos i = pos ! (3 * i + 1)"

definition particle_z :: "real list \<Rightarrow> nat \<Rightarrow> real" where
  "particle_z pos i = pos ! (3 * i + 2)"


section \<open>Notions the properties are stated with\<close>

text \<open>
  The tree's bounds on a position: the height within \<open>[-6, 6]\<close>, and the distance from
  the trunk at most the maximal radius 5.5, times the linear falloff over the total
  height 12, times the flare factor 1.3.
\<close>

definition tree_point_ok :: "real \<Rightarrow> real \<Rightarrow> real \<Rightarrow> bool" where
  "tree_point_ok x y z \<longleftrightarrow>
     - 6 \<le> y \<and> y \<le> 6 \<and> sqrt (x\<^sup>2 + z\<^sup>2) \<le> 5.5 * (1 - (y + 6) / 12) * 1.3"

text \<open>
  An attribute holds \<open>n\<close> items of \<open>k\<close> numbers each.
\<close>

definition has_items :: "buffer_attribute \<Rightarrow> nat \<Rightarrow> nat \<Rightarrow> bool" where
  "has_items b n k \<longleftrightarrow> itemSize b = k \<and> length (array b) = k * n \<and> attr_count b = n"

definition has_items_opt :: "buffer_attribute option \<Rightarrow> nat \<Rightarrow> nat \<Rightarrow> bool" where
  "has_items_opt ob n k = (case ob of None \<Rightarrow> False | Some b \<Rightarrow> has_items b n k)"

text \<open>
  The five parallel attributes of a shader-driven system with \<open>n\<close> particles: \<open>n\<close>
  triples for position and colour, \<open>n\<close> scalars for size, speed and phase.
\<close>

definition five_attributes :: "buffer_geometry \<Rightarrow> nat \<Rightarrow> bool" where
  "five_attributes g n \<longleftrightarrow>
     has_items (attr_position g) n 3 \<and> has_items_opt (attr_color g) n 3
     \<and> has_items_opt (attr_size g) n 1 \<and> has_items_opt (attr_speed g) n 1
     \<and> has_items_opt (attr_phase g) n 1"

text \<open>
  The heart curve of the specification, \<open>x(t) = 16 sin\<^sup>3 t\<close> and
  \<open>y(t) = 13 cos t - 5 cos 2t - 2 cos 3t - cos 4t\<close>, and the region it bounds: the
  points \<open>s \<cdot> (x(t), y(t))\<close> with \<open>0 \<le> s \<le> 1\<close>, on the curve for \<open>s = 1\<close>.
\<close>

definition heart_curve_x :: "real \<Rightarrow> real" where
  "heart_curve_x t = 16 * sin t ^ 3"

definition heart_curve_y :: "real \<Rightarrow> real" where
  "heart_curve_y t = 13 * cos t - 5 * cos (2 * t) - 2 * cos (3 * t) - cos (4 * t)"

definition on_or_inside_heart :: "real \<Rightarrow> real \<Rightarrow> bool" where
  "on_or_inside_heart x y \<longleftrightarrow>
     (\<exists>t s. 0 \<le> s \<and> s \<le> 1 \<and> x = s * heart_curve_x t \<and> y = s * heart_curve_y t)"

text \<open>The derivatives of the two coordinates of the heart curve.\<close>

definition heart_curve_dx :: "real \<Rightarrow> real" where
  "heart_curve_dx t = 48 * sin t ^ 2 * cos t"

definition heart_curve_dy :: "real \<Rightarrow> real" where
  "heart_curve_dy t = - 13 * sin t + 10 * sin (2 * t) + 6 * sin (3 * t) + 4 * sin (4 * t)"

text \<open>Every height of a snow buffer (the entries at \<open>3 i + 1\<close>) lies within \<open>[-20, 20]\<close>.\<close>

definition heights_bounded :: "real list \<Rightarrow> bool" where
  "heights_bounded pos \<longleftrightarrow> (\<forall>j<length pos. j mod 3 = 1 \<longrightarrow> - 20 \<le> pos ! j \<and> pos ! j \<le> 20)"

text \<open>
  A concrete environment for evaluating the model: an 800 by 600 container on a
  display of pixel ratio 3, a 2D context, a random source that always returns one
  quarter, and a colour library that makes every colour red.
\<close>

definition quarter_source :: rng where
  "quarter_source k = 1 / 4"

definition plain_three :: three where
  "plain_three = \<lparr> Color = (\<lambda>hex. \<lparr> col_r = 1, col_g = 0, col_b = 0 \<rparr>),
                    Color_setHSL = (\<lambda>h s l. \<lparr> col_r = 1, col_g = 0, col_b = 0 \<rparr>) \<rparr>"

definition example_env :: environment where
  "example_env = \<lparr> env_mount = Some (800, 600), env_devicePixelRatio = 3,
                    env_context2d = True, env_random = quarter_source,
                    env_three = plain_three, env_time = 0 \<rparr>"

text \<open>Mounting and then unmounting at once: the effect, then its teardown.\<close>

definition mount_then_unmount :: "environment \<Rightarrow> js_error + scene option" where
  "mount_then_unmount env = map_sum id (map_option cleanup) (effect env)"


section \<open>The loops\<close>

lemma for_loop_rule:
  assumes "I i s" and "i \<le> n"
    and "\<And>j s. i \<le> j \<Longrightarrow> j < n \<Longrightarrow> I j s \<Longrightarrow> I (Suc j) (body s)"
  shows "I n (for_loop i n body s)"
  using assms
proof (induction i n body s rule: for_loop.induct)
  case (1 i count body s)
  show ?case
  proof (cases "i < count")
    case True
    have "I (Suc i) (body s)"
      using "1.prems" True by simp
    moreover have "\<And>j s. i + 1 \<le> j \<Longrightarrow> j < count \<Longrightarrow> I j s \<Longrightarrow> I (Suc j) (body s)"
      using "1.prems"(3) by simp
    ultimately have "I count (for_loop (i + 1) count body (body s))"
      using "1.IH"[OF True] True by simp
    then show ?thesis
      using True by (subst for_loop.simps) simp
  next
    case False
    then have "i = count" using "1.prems"(2) by simp
    then show ?thesis using "1.prems"(1) by (subst for_loop.simps) simp
  qed
qed

lemma for_loop_try_rule:
  assumes "I i s" and "i \<le> n"
    and "\<And>j s. i \<le> j \<Longrightarrow> j < n \<Longrightarrow> I j s \<Longrightarrow> \<exists>s'. body s = Inr s' \<and> I (Suc j) s'"
  shows "\<exists>s'. for_loop_try i n body s = Inr s' \<and> I n s'"
  using assms
proof (induction i n body s rule: for_loop_try.induct)
  case (1 i count body s)
  show ?case
  proof (cases "i < count")
    case True
    obtain s' where s': "body s = Inr s'" "I (Suc i) s'"
      using "1.prems" True by blast
    have "\<And>j s. i + 1 \<le> j \<Longrightarrow> j < count \<Longrightarrow> I j s \<Longrightarrow> \<exists>s'. body s = Inr s' \<and> I (Suc j) s'"
      using "1.prems"(3) by simp
    then have "\<exists>s''. for_loop_try (i + 1) count body s' = Inr s'' \<and> I count s''"
      using "1.IH"[OF True s'(1)] s'(2) True by simp
    then show ?thesis
      using True s'(1) by (subst for_loop_try.simps) simp
  next
    case False
    then have "i = count" using "1.prems"(2) by simp
    then show ?thesis using "1.prems"(1) by (subst for_loop_try.simps) simp
  qed
qed

lemma nth_append_triple:
  assumes "length xs = 3 * j" and "p < j"
  shows "(xs @ [a, b, c]) ! (3 * p) = xs ! (3 * p)"
    and "(xs @ [a, b, c]) ! (3 * p + 1) = xs ! (3 * p + 1)"
    and "(xs @ [a, b, c]) ! (3 * p + 2) = xs ! (3 * p + 2)"
  using assms by (simp_all add: nth_append)

lemma nth_append_triple_last:
  assumes "length xs = 3 * j"
  shows "(xs @ [a, b, c]) ! (3 * j) = a"
    and "(xs @ [a, b, c]) ! (3 * j + 1) = b"
    and "(xs @ [a, b, c]) ! (3 * j + 2) = c"
  using assms by (simp_all add: nth_append)


section \<open>The generators\<close>

lemma tree_geometry_bounds:
  fixes r0 r1 r2 th :: real
  assumes "0 \<le> r0" "r0 < 1" "0 \<le> r1" "r1 < 1" "0 \<le> r2" "r2 < 1"
  defines "st \<equiv> real_of_int \<lfloor>r0 * 8\<rfloor> / 8 * 12"
  defines "en \<equiv> (real_of_int \<lfloor>r0 * 8\<rfloor> + 0.9) / 8 * 12"
  defines "y \<equiv> st + r1 * (en - st)"
  defines "rad \<equiv> 5.5 * (1 - y / 12) * (1.0 + 0.3 * (1 - (y - st) / (en - st)))"
  defines "r \<equiv> rad * r2 powr 0.8"
  shows "- 6 \<le> y - 6 \<and> y - 6 \<le> 6
    \<and> sqrt ((r * cos th)\<^sup>2 + (r * sin th)\<^sup>2) \<le> 5.5 * (1 - (y - 6 + 6) / 12) * 1.3"
proof -
  have ti0: "0 \<le> \<lfloor>r0 * 8\<rfloor>"
    using assms(1) by simp
  have "\<lfloor>r0 * 8\<rfloor> < 8"
    using assms(2) by (simp add: floor_less_iff)
  then have ti7: "\<lfloor>r0 * 8\<rfloor> \<le> 7"
    by linarith
  have d: "en - st = 1.35"
    unfolding en_def st_def by (simp add: field_simps)
  have st0: "0 \<le> st" and st7: "st \<le> 10.5"
    unfolding st_def using ti0 ti7 by simp_all
  have y0: "0 \<le> y" and y12: "y < 11.85"
    unfolding y_def d using st0 st7 assms(3,4) by simp_all
  have ylo: "- 6 \<le> y - 6" and yhi: "y - 6 \<le> 6"
    using y0 y12 by simp_all
  have tp: "(y - st) / (en - st) = r1"
    unfolding y_def d by simp
  have fall: "0 \<le> 5.5 * (1 - y / 12)"
    using y12 by simp
  have rad0: "0 \<le> rad"
    unfolding rad_def tp using fall assms(3,4) by (intro mult_nonneg_nonneg) simp_all
  have "5.5 * (1 - y / 12) * (1.0 + 0.3 * (1 - r1)) \<le> 5.5 * (1 - y / 12) * 1.3"
    using fall assms(3) by (intro mult_left_mono) simp_all
  then have radle: "rad \<le> 5.5 * (1 - y / 12) * 1.3"
    unfolding rad_def tp .
  have "r2 powr 0.8 \<le> 1 powr 0.8"
    using assms(5,6) by (intro powr_mono2) simp_all
  then have p1: "r2 powr 0.8 \<le> 1" by simp
  have p0: "0 \<le> r2 powr 0.8" by simp
  have r0': "0 \<le> r"
    unfolding r_def using rad0 p0 by simp
  have "r \<le> rad * 1"
    unfolding r_def using rad0 p1 by (intro mult_left_mono)
  then have rle: "r \<le> rad" by simp
  have "(r * cos th)\<^sup>2 + (r * sin th)\<^sup>2 = r\<^sup>2 * ((sin th)\<^sup>2 + (cos th)\<^sup>2)"
    by (simp only: power_mult_distrib distrib_left add.commute)
  also have "\<dots> = r\<^sup>2" by simp
  finally have "sqrt ((r * cos th)\<^sup>2 + (r * sin th)\<^sup>2) = r"
    using r0' by simp
  then have "sqrt ((r * cos th)\<^sup>2 + (r * sin th)\<^sup>2) \<le> 5.5 * (1 - (y - 6 + 6) / 12) * 1.3"
    using rle radle by simp
  then show ?thesis
    using ylo yhi by blast
qed

lemma palette_index:
  assumes "0 \<le> r" "r < 1"
  shows "\<exists>c. js_index (palette T) \<lfloor>r * real (length (palette T))\<rfloor> = Some c"
proof -
  have len: "length (palette T) = 5" by (simp add: palette_def)
  have "0 \<le> \<lfloor>r * 5\<rfloor>" using assms(1) by simp
  moreover have "\<lfloor>r * 5\<rfloor> < 5" using assms(2) by (simp add: floor_less_iff)
  ultimately show ?thesis
    by (simp add: js_index_def len)
qed

lemma tree_body_step:
  assumes "random_in_range rnd"
  shows "\<exists>x y z cr cg cb.
           tree_body T rnd (a, k) =
             Inr (\<lparr> positions = positions a @ [x, y, z],
                    colors = colors a @ [cr, cg, cb],
                    sizes = sizes a @ [0.2 + rnd (k + 5) * 0.4],
                    speeds = speeds a @ [1.0 + rnd (k + 6) * 3.0],
                    phases = phases a @ [rnd (k + 7) * pi * 2] \<rparr>, k + 8)
           \<and> - 6 \<le> y \<and> y \<le> 6
           \<and> sqrt (x\<^sup>2 + z\<^sup>2) \<le> 5.5 * (1 - (y + 6) / 12) * 1.3"
proof -
  have rng: "\<And>j. 0 \<le> rnd j" "\<And>j. rnd j < 1"
    using assms by (simp_all add: random_in_range_def)
  obtain c where c: "js_index (palette T) \<lfloor>rnd (k + 4) * real (length (palette T))\<rfloor> = Some c"
    using palette_index[OF rng(1) rng(2)] by blast
  note B = tree_geometry_bounds[OF rng(1)[of k] rng(2)[of k] rng(1)[of "k + 1"] rng(2)[of "k + 1"]
      rng(1)[of "k + 2"] rng(2)[of "k + 2"], of "rnd (k + 3) * pi * 2"]
  show ?thesis
    unfolding tree_body_def Let_def prod.case c option.case
    using B by (intro exI conjI) (rule refl | simp)+
qed

lemma particles_append:
  assumes "length xs = 3 * j"
    and "\<forall>p<j. P p (particle_x xs p) (particle_y xs p) (particle_z xs p)"
    and "P j a b c"
  shows "\<forall>p<Suc j. P p (particle_x (xs @ [a, b, c]) p) (particle_y (xs @ [a, b, c]) p)
                        (particle_z (xs @ [a, b, c]) p)"
proof (intro allI impI)
  fix p assume "p < Suc j"
  then consider "p < j" | "p = j" by linarith
  then show "P p (particle_x (xs @ [a, b, c]) p) (particle_y (xs @ [a, b, c]) p)
                 (particle_z (xs @ [a, b, c]) p)"
  proof cases
    case 1
    then show ?thesis
      using assms(2) nth_append_triple[OF assms(1) 1]
      by (simp add: particle_x_def particle_y_def particle_z_def)
  next
    case 2
    then show ?thesis
      using assms(3) nth_append_triple_last[OF assms(1)]
      by (simp add: particle_x_def particle_y_def particle_z_def)
  qed
qed

lemma tree_loop:
  assumes "random_in_range rnd"
  shows "\<exists>a. for_loop_try 0 N (tree_body T rnd) (no_particles, k) = Inr (a, k + 8 * N)
           \<and> length (positions a) = 3 * N \<and> length (colors a) = 3 * N
           \<and> length (sizes a) = N \<and> length (speeds a) = N \<and> length (phases a) = N
           \<and> (\<forall>p<N. tree_point_ok (particle_x (positions a) p) (particle_y (positions a) p)
                                    (particle_z (positions a) p))"
proof -
  define I where "I = (\<lambda>j (s :: particle_arrays \<times> nat).
     snd s = k + 8 * j
     \<and> length (positions (fst s)) = 3 * j \<and> length (colors (fst s)) = 3 * j
     \<and> length (sizes (fst s)) = j \<and> length (speeds (fst s)) = j \<and> length (phases (fst s)) = j
     \<and> (\<forall>p<j. tree_point_ok (particle_x (positions (fst s)) p) (particle_y (positions (fst s)) p)
                              (particle_z (positions (fst s)) p)))"
  have init: "I 0 (no_particles, k)"
    by (simp add: I_def no_particles_def)
  have step: "\<exists>s'. tree_body T rnd s = Inr s' \<and> I (Suc j) s'" if "I j s" for j s
  proof -
    obtain a k' where s: "s = (a, k')" by (cases s)
    obtain x y z cr cg cb where
      b: "tree_body T rnd (a, k') =
            Inr (\<lparr> positions = positions a @ [x, y, z],
                   colors = colors a @ [cr, cg, cb],
                   sizes = sizes a @ [0.2 + rnd (k' + 5) * 0.4],
                   speeds = speeds a @ [1.0 + rnd (k' + 6) * 3.0],
                   phases = phases a @ [rnd (k' + 7) * pi * 2] \<rparr>, k' + 8)"
      and ok: "tree_point_ok x y z"
      using tree_body_step[OF assms, of T a k'] unfolding tree_point_ok_def by blast
    have len: "length (positions a) = 3 * j"
      and old: "\<forall>p<j. (\<lambda>p. tree_point_ok) p (particle_x (positions a) p) (particle_y (positions a) p)
                                    (particle_z (positions a) p)"
      using that by (simp_all add: I_def s)
    note new = particles_append[OF len old ok]
    have "I (Suc j) (\<lparr> positions = positions a @ [x, y, z],
                   colors = colors a @ [cr, cg, cb],
                   sizes = sizes a @ [0.2 + rnd (k' + 5) * 0.4],
                   speeds = speeds a @ [1.0 + rnd (k' + 6) * 3.0],
                   phases = phases a @ [rnd (k' + 7) * pi * 2] \<rparr>, k' + 8)"
      using that new by (simp add: I_def s)
    then show ?thesis
      using b s by blast
  qed
  obtain s' where s': "for_loop_try 0 N (tree_body T rnd) (no_particles, k) = Inr s'" "I N s'"
    using for_loop_try_rule[of I 0 "(no_particles, k)" N "tree_body T rnd", OF init _ step]
    by blast
  obtain a k' where "s' = (a, k')" by (cases s')
  then show ?thesis
    using s' by (auto simp: I_def)
qed

lemma heart_loop:
  "\<exists>a. for_loop 0 N (heart_body T rnd) (no_particles, k) = (a, k + 7 * N)
        \<and> length (positions a) = 3 * N \<and> length (colors a) = 3 * N
        \<and> length (sizes a) = N \<and> length (speeds a) = N \<and> length (phases a) = N
        \<and> (\<forall>p<N.
              particle_x (positions a) p
                = 16 * sin (rnd (k + 7 * p) * pi * 2) ^ 3 * sqrt (rnd (k + 7 * p + 2)) * 0.05
            \<and> particle_y (positions a) p
                = (13 * cos (rnd (k + 7 * p) * pi * 2) - 5 * cos (2 * (rnd (k + 7 * p) * pi * 2))
                   - 2 * cos (3 * (rnd (k + 7 * p) * pi * 2)) - cos (4 * (rnd (k + 7 * p) * pi * 2)))
                  * sqrt (rnd (k + 7 * p + 2)) * 0.05 + 6.2
            \<and> particle_z (positions a) p
                = (rnd (k + 7 * p + 1) - 0.5) * 6 * sqrt (rnd (k + 7 * p + 2)) * 0.05)"
proof -
  define P where "P = (\<lambda>p x y z.
      x = 16 * sin (rnd (k + 7 * p) * pi * 2) ^ 3 * sqrt (rnd (k + 7 * p + 2)) * 0.05
    \<and> y = (13 * cos (rnd (k + 7 * p) * pi * 2) - 5 * cos (2 * (rnd (k + 7 * p) * pi * 2))
           - 2 * cos (3 * (rnd (k + 7 * p) * pi * 2)) - cos (4 * (rnd (k + 7 * p) * pi * 2)))
          * sqrt (rnd (k + 7 * p + 2)) * 0.05 + 6.2
    \<and> z = (rnd (k + 7 * p + 1) - 0.5) * 6 * sqrt (rnd (k + 7 * p + 2)) * 0.05)"
  define I where "I = (\<lambda>j (s :: particle_arrays \<times> nat).
     snd s = k + 7 * j
     \<and> length (positions (fst s)) = 3 * j \<and> length (colors (fst s)) = 3 * j
     \<and> length (sizes (fst s)) = j \<and> length (speeds (fst s)) = j \<and> length (phases (fst s)) = j
     \<and> (\<forall>p<j. P p (particle_x (positions (fst s)) p) (particle_y (positions (fst s)) p)
                    (particle_z (positions (fst s)) p)))"
  have init: "I 0 (no_particles, k)"
    by (simp add: I_def no_particles_def)
  have step: "I (Suc j) (heart_body T rnd s)" if "I j s" for j s
  proof -
    obtain a k' where s: "s = (a, k')" by (cases s)
    have k': "k' = k + 7 * j" and len: "length (positions a) = 3 * j"
      and old: "\<forall>p<j. P p (particle_x (positions a) p) (particle_y (positions a) p)
                          (particle_z (positions a) p)"
      using that by (simp_all add: I_def s)
    define X where "X = 16 * sin (rnd k' * pi * 2) ^ 3 * sqrt (rnd (k' + 2)) * 0.05"
    define Y where "Y = (13 * cos (rnd k' * pi * 2) - 5 * cos (2 * (rnd k' * pi * 2))
                     - 2 * cos (3 * (rnd k' * pi * 2)) - cos (4 * (rnd k' * pi * 2)))
                    * sqrt (rnd (k' + 2)) * 0.05 + 6.2"
    define Z where "Z = (rnd (k' + 1) - 0.5) * 6 * sqrt (rnd (k' + 2)) * 0.05"
    define c where "c = Color T (if rnd (k' + 3) > 0.3 then 16711765 else 16766720)"
    have hb: "heart_body T rnd (a, k') =
         (\<lparr> positions = positions a @ [X, Y, Z],
            colors = colors a @ [col_r c, col_g c, col_b c],
            sizes = sizes a @ [0.3 + rnd (k' + 4) * 0.4],
            speeds = speeds a @ [2.0 + rnd (k' + 5) * 3.0],
            phases = phases a @ [rnd (k' + 6) * pi * 2] \<rparr>, k' + 7)"
      unfolding heart_body_def Let_def prod.case X_def Y_def Z_def c_def by (rule refl)
    have new: "P j X Y Z"
      unfolding P_def X_def Y_def Z_def k' add.assoc by (intro conjI refl)
    note app = particles_append[OF len old new]
    show ?thesis
      unfolding s hb using that app by (simp add: I_def s)
  qed
  have "I N (for_loop 0 N (heart_body T rnd) (no_particles, k))"
    using for_loop_rule[of I 0 "(no_particles, k)" N "heart_body T rnd", OF init _ step]
    by blast
  moreover obtain a k' where eq: "for_loop 0 N (heart_body T rnd) (no_particles, k) = (a, k')"
    by (cases "for_loop 0 N (heart_body T rnd) (no_particles, k)")
  ultimately have "I N (a, k')"
    by (simp only:)
  then have "k' = k + 7 * N" and
    "length (positions a) = 3 * N \<and> length (colors a) = 3 * N
        \<and> length (sizes a) = N \<and> length (speeds a) = N \<and> length (phases a) = N
        \<and> (\<forall>p<N. P p (particle_x (positions a) p) (particle_y (positions a) p)
                    (particle_z (positions a) p))"
    unfolding I_def fst_conv snd_conv by blast+
  then show ?thesis
    unfolding eq P_def by blast
qed

lemma base_loop:
  "\<exists>a. for_loop 0 N (base_body T rnd) (no_particles, k) = (a, k + 6 * N)
        \<and> length (positions a) = 3 * N \<and> length (colors a) = 3 * N
        \<and> length (sizes a) = N \<and> length (speeds a) = N \<and> length (phases a) = N"
proof -
  define I where "I = (\<lambda>j (s :: particle_arrays \<times> nat).
     snd s = k + 6 * j
     \<and> length (positions (fst s)) = 3 * j \<and> length (colors (fst s)) = 3 * j
     \<and> length (sizes (fst s)) = j \<and> length (speeds (fst s)) = j \<and> length (phases (fst s)) = j)"
  have init: "I 0 (no_particles, k)"
    by (simp add: I_def no_particles_def)
  have step: "I (Suc j) (base_body T rnd s)" if "I j s" for j s
    using that by (cases s) (simp add: I_def base_body_def Let_def)
  have "I N (for_loop 0 N (base_body T rnd) (no_particles, k))"
    using for_loop_rule[of I 0 "(no_particles, k)" N "base_body T rnd", OF init _ step]
    by blast
  moreover obtain a k' where "for_loop 0 N (base_body T rnd) (no_particles, k) = (a, k')"
    by (cases "for_loop 0 N (base_body T rnd) (no_particles, k)")
  ultimately show ?thesis
    unfolding I_def by simp
qed

lemma snow_gen_loop:
  "\<exists>pos. for_loop 0 N (snow_body rnd) ([], k) = (pos, k + 3 * N)
        \<and> length pos = 3 * N
        \<and> (\<forall>p<N. particle_x pos p = (rnd (k + 3 * p) - 0.5) * 50
                 \<and> particle_y pos p = (rnd (k + 3 * p + 1) - 0.5) * 40
                 \<and> particle_z pos p = (rnd (k + 3 * p + 2) - 0.5) * 50)"
proof -
  define P where "P = (\<lambda>p x y z.
      x = (rnd (k + 3 * p) - 0.5) * 50 \<and> y = (rnd (k + 3 * p + 1) - 0.5) * 40
    \<and> z = (rnd (k + 3 * p + 2) - 0.5) * 50)"
  define I where "I = (\<lambda>j (s :: real list \<times> nat).
     snd s = k + 3 * j \<and> length (fst s) = 3 * j
     \<and> (\<forall>p<j. P p (particle_x (fst s) p) (particle_y (fst s) p) (particle_z (fst s) p)))"
  have init: "I 0 ([], k)"
    by (simp add: I_def)
  have step: "I (Suc j) (snow_body rnd s)" if "I j s" for j s
  proof -
    obtain pos k' where s: "s = (pos, k')" by (cases s)
    have k': "k' = k + 3 * j" and len: "length pos = 3 * j"
      and old: "\<forall>p<j. P p (particle_x pos p) (particle_y pos p) (particle_z pos p)"
      using that by (simp_all add: I_def s)
    have new: "P j ((rnd k' - 0.5) * 50) ((rnd (k' + 1) - 0.5) * 40) ((rnd (k' + 2) - 0.5) * 50)"
      by (simp add: P_def k' add.assoc)
    note app = particles_append[OF len old new]
    show ?thesis
      using that app by (simp add: I_def s snow_body_def)
  qed
  have "I N (for_loop 0 N (snow_body rnd) ([], k))"
    using for_loop_rule[of I 0 "([], k)" N "snow_body rnd", OF init _ step]
    by blast
  moreover obtain pos k' where "for_loop 0 N (snow_body rnd) ([], k) = (pos, k')"
    by (cases "for_loop 0 N (snow_body rnd) ([], k)")
  ultimately show ?thesis
    unfolding I_def P_def by simp
qed

lemma has_items_Float32: "0 < k \<Longrightarrow> length xs = k * n \<Longrightarrow> has_items (Float32BufferAttribute xs k) n k"
  by (simp add: has_items_def Float32BufferAttribute_def attr_count_def)

lemma five_attributes_sparkle:
  assumes "length (positions a) = 3 * n" "length (colors a) = 3 * n"
    and "length (sizes a) = n" "length (speeds a) = n" "length (phases a) = n"
  shows "five_attributes (sparkle_geometry a) n"
  using assms
  by (simp add: five_attributes_def sparkle_geometry_def has_items_opt_def has_items_Float32)

lemma glitterTree_result:
  assumes "random_in_range rnd"
  shows "\<exists>tree. glitterTree N T rnd k = Inr (tree, k + 8 * N)
           \<and> material tree = ShaderMaterial NormalBlending False True None
           \<and> five_attributes (geometry tree) N
           \<and> (\<forall>i<N. tree_point_ok (particle_x (array (attr_position (geometry tree))) i)
                                    (particle_y (array (attr_position (geometry tree))) i)
                                    (particle_z (array (attr_position (geometry tree))) i))"
proof -
  obtain a where a: "for_loop_try 0 N (tree_body T rnd) (no_particles, k) = Inr (a, k + 8 * N)"
    and len: "length (positions a) = 3 * N" "length (colors a) = 3 * N"
      "length (sizes a) = N" "length (speeds a) = N" "length (phases a) = N"
    and ok: "\<forall>p<N. tree_point_ok (particle_x (positions a) p) (particle_y (positions a) p)
                                    (particle_z (positions a) p)"
    using tree_loop[OF assms, of N T k] by blast
  have pos: "array (attr_position (sparkle_geometry a)) = positions a"
    by (simp add: sparkle_geometry_def Float32BufferAttribute_def)
  show ?thesis
    using five_attributes_sparkle[OF len] ok
    by (simp add: glitterTree_def a new_Points_def pos)
qed

lemma solidHeart_result:
  "\<exists>a. solidHeart N T rnd k =
          (new_Points (sparkle_geometry a) (ShaderMaterial NormalBlending False True None), k + 7 * N)
        \<and> five_attributes (sparkle_geometry a) N
        \<and> array (attr_position (sparkle_geometry a)) = positions a
        \<and> (\<forall>p<N.
              particle_x (positions a) p
                = 16 * sin (rnd (k + 7 * p) * pi * 2) ^ 3 * sqrt (rnd (k + 7 * p + 2)) * 0.05
            \<and> particle_y (positions a) p
                = (13 * cos (rnd (k + 7 * p) * pi * 2) - 5 * cos (2 * (rnd (k + 7 * p) * pi * 2))
                   - 2 * cos (3 * (rnd (k + 7 * p) * pi * 2)) - cos (4 * (rnd (k + 7 * p) * pi * 2)))
                  * sqrt (rnd (k + 7 * p + 2)) * 0.05 + 6.2
            \<and> particle_z (positions a) p
                = (rnd (k + 7 * p + 1) - 0.5) * 6 * sqrt (rnd (k + 7 * p + 2)) * 0.05)"
proof -
  obtain a where a: "for_loop 0 N (heart_body T rnd) (no_particles, k) = (a, k + 7 * N)"
    and len: "length (positions a) = 3 * N" "length (colors a) = 3 * N"
      "length (sizes a) = N" "length (speeds a) = N" "length (phases a) = N"
    and form: "\<forall>p<N.
              particle_x (positions a) p
                = 16 * sin (rnd (k + 7 * p) * pi * 2) ^ 3 * sqrt (rnd (k + 7 * p + 2)) * 0.05
            \<and> particle_y (positions a) p
                = (13 * cos (rnd (k + 7 * p) * pi * 2) - 5 * cos (2 * (rnd (k + 7 * p) * pi * 2))
                   - 2 * cos (3 * (rnd (k + 7 * p) * pi * 2)) - cos (4 * (rnd (k + 7 * p) * pi * 2)))
                  * sqrt (rnd (k + 7 * p + 2)) * 0.05 + 6.2
            \<and> particle_z (positions a) p
                = (rnd (k + 7 * p + 1) - 0.5) * 6 * sqrt (rnd (k + 7 * p + 2)) * 0.05"
    using heart_loop[of N T rnd k] by blast
  have pos: "array (attr_position (sparkle_geometry a)) = positions a"
    by (simp add: sparkle_geometry_def Float32BufferAttribute_def)
  have sh: "solidHeart N T rnd k =
          (new_Points (sparkle_geometry a) (ShaderMaterial NormalBlending False True None), k + 7 * N)"
    by (simp add: solidHeart_def a)
  show ?thesis
    using sh five_attributes_sparkle[OF len] pos form by blast
qed

lemma swirlingBase_result:
  "\<exists>a. swirlingBase N T rnd k =
          (new_Points (sparkle_geometry a) (ShaderMaterial AdditiveBlending False True (Some 0.5)),
           k + 6 * N)
        \<and> five_attributes (sparkle_geometry a) N"
proof -
  obtain a where a: "for_loop 0 N (base_body T rnd) (no_particles, k) = (a, k + 6 * N)"
    and len: "length (positions a) = 3 * N" "length (colors a) = 3 * N"
      "length (sizes a) = N" "length (speeds a) = N" "length (phases a) = N"
    using base_loop[of N T rnd k] by blast
  have "swirlingBase N T rnd k =
          (new_Points (sparkle_geometry a) (ShaderMaterial AdditiveBlending False True (Some 0.5)),
           k + 6 * N)"
    by (simp add: swirlingBase_def a)
  then show ?thesis
    using five_attributes_sparkle[OF len] by blast
qed

lemma snow_result:
  "\<exists>pos. snow N rnd k =
          (new_Points
             \<lparr> attr_position = Float32BufferAttribute pos 3,
               attr_color = None, attr_size = None, attr_speed = None, attr_phase = None \<rparr>
             (PointsMaterial 16772846 0.1 0.3 True False AdditiveBlending), k + 3 * N)
        \<and> length pos = 3 * N
        \<and> (\<forall>p<N. particle_x pos p = (rnd (k + 3 * p) - 0.5) * 50
                 \<and> particle_y pos p = (rnd (k + 3 * p + 1) - 0.5) * 40
                 \<and> particle_z pos p = (rnd (k + 3 * p + 2) - 0.5) * 50)"
proof -
  obtain pos where a: "for_loop 0 N (snow_body rnd) ([], k) = (pos, k + 3 * N)"
    and rest: "length pos = 3 * N"
      "\<forall>p<N. particle_x pos p = (rnd (k + 3 * p) - 0.5) * 50
                 \<and> particle_y pos p = (rnd (k + 3 * p + 1) - 0.5) * 40
                 \<and> particle_z pos p = (rnd (k + 3 * p + 2) - 0.5) * 50"
    using snow_gen_loop[of N rnd k] by blast
  have "snow N rnd k =
          (new_Points
             \<lparr> attr_position = Float32BufferAttribute pos 3,
               attr_color = None, attr_size = None, attr_speed = None, attr_phase = None \<rparr>
             (PointsMaterial 16772846 0.1 0.3 True False AdditiveBlending), k + 3 * N)"
    by (simp add: snow_def a)
  then show ?thesis
    using rest by blast
qed


section \<open>The snow update\<close>

lemma length_snow_step: "length (snow_step t i pos) = length pos"
  by (simp add: snow_step_def Let_def)

lemma snow_step_nth:
  assumes "1 \<le> i" and "i < length pos" and "j < length pos"
  shows "snow_step t i pos ! j =
           (if j = i then (if pos ! i - 0.03 < - 20 then 20 else pos ! i - 0.03)
            else if j = i - 1 then pos ! (i - 1) + sin (t * 0.5 + (pos ! i - 0.03)) * 0.01
            else pos ! j)"
  using assms by (auto simp: snow_step_def Let_def nth_list_update)

lemma length_snow_loop: "length (snow_loop t i pos) = length pos"
proof (induction t i pos rule: snow_loop.induct)
  case (1 time i pos)
  show ?case
  proof (cases "i < length pos")
    case True
    then show ?thesis
      using "1.IH" by (subst snow_loop.simps) (simp add: length_snow_step)
  next
    case False
    then show ?thesis
      by (subst snow_loop.simps) simp
  qed
qed

lemma snow_loop_nth:
  assumes "i mod 3 = 1" and "j < length pos"
  shows "snow_loop t i pos ! j =
           (if j mod 3 = 1 \<and> i \<le> j
            then (if pos ! j - 0.03 < - 20 then 20 else pos ! j - 0.03)
            else if j mod 3 = 0 \<and> i \<le> j + 1 \<and> j + 1 < length pos
            then pos ! j + sin (t * 0.5 + (pos ! (j + 1) - 0.03)) * 0.01
            else pos ! j)"
  using assms
proof (induction t i pos rule: snow_loop.induct)
  case (1 time i pos)
  show ?case
  proof (cases "i < length pos")
    case False
    have e: "snow_loop time i pos = pos"
      using False by (subst snow_loop.simps) simp
    have c1: "(j mod 3 = 1 \<and> i \<le> j) = False"
      using False "1.prems"(2) by simp
    have c2: "(j mod 3 = 0 \<and> i \<le> j + 1 \<and> j + 1 < length pos) = False"
      using False by simp
    show ?thesis
      by (simp only: e c1 c2 if_False)
  next
    case True
    define pos' where "pos' = snow_step time i pos"
    have i1: "1 \<le> i"
      using "1.prems"(1) by (cases i) simp_all
    have len: "length pos' = length pos"
      by (simp add: pos'_def length_snow_step)
    have unfold: "snow_loop time i pos = snow_loop time (i + 3) pos'"
      using True by (subst snow_loop.simps) (simp add: pos'_def)
    have m: "(i + 3) mod 3 = 1"
      using "1.prems"(1) by simp
    have jl: "j < length pos'"
      using "1.prems"(2) len by simp
    have IH: "snow_loop time (i + 3) pos' ! j =
           (if j mod 3 = 1 \<and> i + 3 \<le> j
            then (if pos' ! j - 0.03 < - 20 then 20 else pos' ! j - 0.03)
            else if j mod 3 = 0 \<and> i + 3 \<le> j + 1 \<and> j + 1 < length pos'
            then pos' ! j + sin (time * 0.5 + (pos' ! (j + 1) - 0.03)) * 0.01
            else pos' ! j)"
      using "1.IH"[OF True m] jl unfolding pos'_def by blast
    have nth: "\<And>q. q < length pos \<Longrightarrow> pos' ! q =
           (if q = i then (if pos ! i - 0.03 < - 20 then 20 else pos ! i - 0.03)
            else if q = i - 1 then pos ! (i - 1) + sin (time * 0.5 + (pos ! i - 0.03)) * 0.01
            else pos ! q)"
      unfolding pos'_def using snow_step_nth[OF i1 True] by blast
    have keep: "pos' ! q = pos ! q" if "q < length pos" "q \<noteq> i" "q \<noteq> i - 1" for q
      using nth[OF that(1)] that(2,3) by simp
    have at_i: "pos' ! i = (if pos ! i - 0.03 < - 20 then 20 else pos ! i - 0.03)"
      using nth[OF True] by simp
    have "i - 1 < length pos" "i - 1 \<noteq> i"
      using True i1 by simp_all
    then have at_x: "pos' ! (i - 1) = pos ! (i - 1) + sin (time * 0.5 + (pos ! i - 0.03)) * 0.01"
      using nth[of "i - 1"] by (simp only: if_False if_True refl)
    have "(j mod 3 = 1 \<and> i + 3 \<le> j) \<or> j = i \<or> (j mod 3 = 1 \<and> j < i)
        \<or> (j mod 3 = 0 \<and> i + 3 \<le> j + 1) \<or> j = i - 1 \<or> (j mod 3 = 0 \<and> j + 1 < i)
        \<or> j mod 3 = 2"
      using "1.prems"(1) i1 by presburger
    then consider (y_later) "j mod 3 = 1" "i + 3 \<le> j"
      | (y_here) "j = i"
      | (y_before) "j mod 3 = 1" "j < i"
      | (x_later) "j mod 3 = 0" "i + 3 \<le> j + 1" "j + 1 < length pos"
      | (x_here) "j = i - 1"
      | (x_before) "j mod 3 = 0" "j + 1 < i"
      | (x_last) "j mod 3 = 0" "i + 3 \<le> j + 1" "\<not> j + 1 < length pos"
      | (z) "j mod 3 = 2"
      by (cases "j + 1 < length pos") auto
    then show ?thesis
    proof cases
      case y_later
      have "j \<noteq> i" "j \<noteq> i - 1"
        using y_later by simp_all
      then have "pos' ! j = pos ! j"
        using keep "1.prems"(2) by blast
      then show ?thesis
        unfolding unfold IH using y_later by simp
    next
      case y_here
      have c: "\<not> i + 3 \<le> i" "i mod 3 \<noteq> 0"
        using "1.prems"(1) by simp_all
      have "snow_loop time (i + 3) pos' ! i = pos' ! i"
        using IH c unfolding y_here by simp
      then show ?thesis
        unfolding unfold y_here using "1.prems"(1) at_i by simp
    next
      case y_before
      have "j \<noteq> i" "j \<noteq> i - 1"
        using y_before "1.prems"(1) i1 by presburger+
      then have "pos' ! j = pos ! j"
        using keep "1.prems"(2) by blast
      then show ?thesis
        unfolding unfold IH using y_before by simp
    next
      case x_later
      have "j \<noteq> i" "j \<noteq> i - 1" "j + 1 \<noteq> i" "j + 1 \<noteq> i - 1"
        using x_later by simp_all
      then have "pos' ! j = pos ! j" "pos' ! (j + 1) = pos ! (j + 1)"
        using keep "1.prems"(2) x_later(3) by blast+
      then show ?thesis
        unfolding unfold IH len using x_later by simp
    next
      case x_here
      have c: "(i - 1) mod 3 = 0" "i - 1 + 1 = i" "\<not> i + 3 \<le> i"
        using "1.prems"(1) i1 by presburger+
      have "snow_loop time (i + 3) pos' ! (i - 1) = pos' ! (i - 1)"
        using IH c unfolding x_here by simp
      then show ?thesis
        unfolding unfold x_here using c True at_x by simp
    next
      case x_before
      have "j \<noteq> i" "j \<noteq> i - 1"
        using x_before by simp_all
      then have "pos' ! j = pos ! j"
        using keep "1.prems"(2) by blast
      then show ?thesis
        unfolding unfold IH using x_before by simp
    next
      case x_last
      have "j \<noteq> i" "j \<noteq> i - 1"
        using x_last by simp_all
      then have "pos' ! j = pos ! j"
        using keep "1.prems"(2) by blast
      then show ?thesis
        unfolding unfold IH len using x_last by simp
    next
      case z
      have "j \<noteq> i" "j \<noteq> i - 1"
        using z "1.prems"(1) i1 by presburger+
      then have "pos' ! j = pos ! j"
        using keep "1.prems"(2) by blast
      then show ?thesis
        unfolding unfold IH using z by simp
    qed
  qed
qed

lemma snow_loop_height:
  assumes "3 * p + 1 < length pos"
  shows "particle_y (snow_loop t 1 pos) p =
           (if particle_y pos p - 0.03 < - 20 then 20 else particle_y pos p - 0.03)"
proof -
  have "(3 * p + 1) mod 3 = 1" by presburger
  then show ?thesis
    using snow_loop_nth[of 1 "3 * p + 1" pos t] assms by (simp add: particle_y_def)
qed

lemma snow_loop_drift:
  assumes "3 * p + 1 < length pos"
  shows "particle_x (snow_loop t 1 pos) p =
           particle_x pos p + sin (t * 0.5 + (particle_y pos p - 0.03)) * 0.01"
proof -
  have "(3 * p) mod 3 = 0" "(3 * p) mod 3 \<noteq> 1" by presburger+
  then show ?thesis
    using snow_loop_nth[of 1 "3 * p" pos t] assms by (simp add: particle_x_def particle_y_def)
qed

lemma snow_loop_depth:
  assumes "3 * p + 2 < length pos"
  shows "particle_z (snow_loop t 1 pos) p = particle_z pos p"
proof -
  have "(3 * p + 2) mod 3 = 2" by presburger
  then show ?thesis
    using snow_loop_nth[of 1 "3 * p + 2" pos t] assms by (simp add: particle_z_def)
qed

lemma snow_loop_bounded:
  assumes "heights_bounded pos"
  shows "heights_bounded (snow_loop t 1 pos)"
  unfolding heights_bounded_def length_snow_loop
proof (intro allI impI)
  fix j assume j: "j < length pos" "j mod 3 = 1"
  have "1 \<le> j" using j(2) by (cases j) simp_all
  then have "snow_loop t 1 pos ! j = (if pos ! j - 0.03 < - 20 then 20 else pos ! j - 0.03)"
    using snow_loop_nth[of 1 j pos t] j by simp
  moreover have "pos ! j \<le> 20"
    using assms j by (simp add: heights_bounded_def)
  ultimately show "- 20 \<le> snow_loop t 1 pos ! j \<and> snow_loop t 1 pos ! j \<le> 20"
    by simp
qed


section \<open>Frames, resizes and teardown\<close>

lemma animate_kept [simp]:
  "camera_aspect (animate t s) = camera_aspect s"
  "renderer_size (animate t s) = renderer_size s"
  "renderer_pixelRatio (animate t s) = renderer_pixelRatio s"
  "renderer_disposed (animate t s) = renderer_disposed s"
  "composer_size (animate t s) = composer_size s"
  "globalUniforms_uPixelRatio (animate t s) = globalUniforms_uPixelRatio s"
  "globalUniforms_pointTexture (animate t s) = globalUniforms_pointTexture s"
  "scene_children (animate t s) = scene_children s"
  "resize_listener (animate t s) = resize_listener s"
  by (simp_all add: animate_def Let_def)

lemma animate_written [simp]:
  "globalUniforms_uTime (animate t s) = t"
  "animationFrameId (animate t s) = Some (raf_next s)"
  "raf_pending (animate t s) = raf_pending s @ [raf_next s]"
  "raf_next (animate t s) = raf_next s + 1"
  "frames_rendered (animate t s) = frames_rendered s + 1"
  "snow_positions (animate t s) = snow_loop t 1 (snow_positions s)"
  by (simp_all add: animate_def Let_def snow_positions_def set_position_array_def)

lemma onWindowResize_kept [simp]:
  "renderer_disposed (onWindowResize m d s) = renderer_disposed s"
  "globalUniforms_pointTexture (onWindowResize m d s) = globalUniforms_pointTexture s"
  "scene_children (onWindowResize m d s) = scene_children s"
  "resize_listener (onWindowResize m d s) = resize_listener s"
  "animationFrameId (onWindowResize m d s) = animationFrameId s"
  "raf_pending (onWindowResize m d s) = raf_pending s"
  "snow_positions (onWindowResize m d s) = snow_positions s"
  by (simp_all add: onWindowResize_def snow_positions_def split: option.splits prod.splits)

lemma fold_animate_kept:
  assumes "\<And>s. f (animate t s) = f s"
  shows "f (fold (\<lambda>h. animate t) hs s) = f s"
  using assms by (induction hs arbitrary: s) simp_all

lemma dispatch_kept [simp]:
  "renderer_disposed (dispatch ev s) = renderer_disposed s"
  "globalUniforms_pointTexture (dispatch ev s) = globalUniforms_pointTexture s"
  "scene_children (dispatch ev s) = scene_children s"
  "resize_listener (dispatch ev s) = resize_listener s"
  by (cases ev; simp add: fold_animate_kept)+

lemma run_kept [simp]:
  "renderer_disposed (run evs s) = renderer_disposed s"
  "globalUniforms_pointTexture (run evs s) = globalUniforms_pointTexture s"
  "scene_children (run evs s) = scene_children s"
  "resize_listener (run evs s) = resize_listener s"
  unfolding run_def by (induction evs arbitrary: s; simp)+

text \<open>At most the callback whose handle \<open>animate\<close> kept last is scheduled.\<close>

lemma dispatch_schedule:
  assumes "raf_pending s = [] \<or> animationFrameId s = Some (hd (raf_pending s)) \<and> length (raf_pending s) = 1"
  shows "raf_pending (dispatch ev s) = []
       \<or> animationFrameId (dispatch ev s) = Some (hd (raf_pending (dispatch ev s)))
          \<and> length (raf_pending (dispatch ev s)) = 1"
proof (cases ev)
  case (AnimationFrame t)
  show ?thesis
  proof (cases "raf_pending s")
    case Nil
    then show ?thesis
      using AnimationFrame by simp
  next
    case (Cons h hs)
    then have "hs = []"
      using assms by simp
    then show ?thesis
      using AnimationFrame Cons by simp
  qed
next
  case (WindowResize m d)
  then show ?thesis
    using assms by simp
qed

lemma run_schedule:
  assumes "raf_pending s = [] \<or> animationFrameId s = Some (hd (raf_pending s)) \<and> length (raf_pending s) = 1"
  shows "raf_pending (run evs s) = []
       \<or> animationFrameId (run evs s) = Some (hd (raf_pending (run evs s)))
          \<and> length (raf_pending (run evs s)) = 1"
  using assms unfolding run_def
proof (induction evs arbitrary: s)
  case Nil
  then show ?case by simp
next
  case (Cons ev evs)
  show ?case
    using Cons.IH[OF dispatch_schedule[OF Cons.prems]] by simp
qed

lemma cleanup_fields [simp]:
  "resize_listener (cleanup s) = False"
  "renderer_disposed (cleanup s) = True"
  "scene_children (cleanup s) = []"
  "globalUniforms_pointTexture (cleanup s) = globalUniforms_pointTexture s"
  "globalUniforms_uTime (cleanup s) = globalUniforms_uTime s"
  "snow_positions (cleanup s) = snow_positions s"
  "frames_rendered (cleanup s) = frames_rendered s"
  by (simp_all add: cleanup_def snow_positions_def)

lemma cleanup_cancels:
  assumes "raf_pending s = [] \<or> animationFrameId s = Some (hd (raf_pending s)) \<and> length (raf_pending s) = 1"
  shows "raf_pending (cleanup s) = []"
proof (cases "raf_pending s")
  case Nil
  then show ?thesis
    by (simp add: cleanup_def split: option.splits)
next
  case (Cons h hs)
  then have "hs = []" "animationFrameId s = Some h"
    using assms by simp_all
  then show ?thesis
    using Cons by (simp add: cleanup_def)
qed

lemma idle_dispatch:
  assumes "raf_pending s = []" and "\<not> resize_listener s"
  shows "dispatch ev s = s"
  using assms by (cases ev) simp_all

lemma idle_run:
  assumes "raf_pending s = []" and "\<not> resize_listener s"
  shows "run evs s = s"
  unfolding run_def using assms
  by (induction evs) (simp_all add: idle_dispatch)

lemma fold_animate_snow:
  assumes "heights_bounded (snow_positions s)"
  shows "heights_bounded (snow_positions (fold (\<lambda>h. animate t) hs s))
       \<and> length (snow_positions (fold (\<lambda>h. animate t) hs s)) = length (snow_positions s)"
  using assms
proof (induction hs arbitrary: s)
  case Nil
  then show ?case by simp
next
  case (Cons h hs)
  have "heights_bounded (snow_positions (animate t s))"
    using snow_loop_bounded[OF Cons.prems, of t] by simp
  then show ?case
    using Cons.IH[of "animate t s"] by (simp add: length_snow_loop)
qed

lemma dispatch_snow:
  assumes "heights_bounded (snow_positions s)"
  shows "heights_bounded (snow_positions (dispatch ev s))
       \<and> length (snow_positions (dispatch ev s)) = length (snow_positions s)"
proof (cases ev)
  case (AnimationFrame t)
  have "snow_positions (s\<lparr> raf_pending := [] \<rparr>) = snow_positions s"
    by (simp add: snow_positions_def)
  then show ?thesis
    using AnimationFrame assms fold_animate_snow[of "s\<lparr> raf_pending := [] \<rparr>" t "raf_pending s"]
    by simp
next
  case (WindowResize m d)
  then show ?thesis
    using assms by simp
qed

lemma run_snow:
  assumes "heights_bounded (snow_positions s)"
  shows "heights_bounded (snow_positions (run evs s))
       \<and> length (snow_positions (run evs s)) = length (snow_positions s)"
  using assms unfolding run_def
proof (induction evs arbitrary: s)
  case Nil
  then show ?case by simp
next
  case (Cons ev evs)
  show ?case
    using Cons.IH[of "dispatch ev s"] dispatch_snow[OF Cons.prems, of ev] by simp
qed

lemma run_depth:
  "length (snow_positions (run evs s)) = length (snow_positions s)
   \<and> (3 * p + 2 < length (snow_positions s) \<longrightarrow>
        particle_z (snow_positions (run evs s)) p = particle_z (snow_positions s) p)"
  unfolding run_def
proof (induction evs arbitrary: s)
  case Nil
  then show ?case by simp
next
  case (Cons ev evs)
  have fold_depth: "length (snow_positions (fold (\<lambda>h. animate t) (hs :: nat list) s')) = length (snow_positions s')
     \<and> (3 * p + 2 < length (snow_positions s') \<longrightarrow>
        particle_z (snow_positions (fold (\<lambda>h. animate t) hs s')) p = particle_z (snow_positions s') p)"
    for t hs s'
  proof (induction hs arbitrary: s')
    case Nil
    then show ?case by simp
  next
    case (Cons h hs)
    show ?case
      using Cons[of "animate t s'"] snow_loop_depth[of p "snow_positions s'" t]
      by (simp add: length_snow_loop)
  qed
  have d: "length (snow_positions (dispatch ev s)) = length (snow_positions s)
     \<and> (3 * p + 2 < length (snow_positions s) \<longrightarrow>
        particle_z (snow_positions (dispatch ev s)) p = particle_z (snow_positions s) p)"
  proof (cases ev)
    case (AnimationFrame t)
    have "snow_positions (s\<lparr> raf_pending := [] \<rparr>) = snow_positions s"
      by (simp add: snow_positions_def)
    then show ?thesis
      using AnimationFrame fold_depth[of t "raf_pending s" "s\<lparr> raf_pending := [] \<rparr>"] by simp
  next
    case (WindowResize m d)
    then show ?thesis by simp
  qed
  show ?case
    using Cons[of "dispatch ev s"] d by simp
qed

lemma initial_snow_bounded:
  assumes "random_in_range rnd"
    and "length pos = 3 * N"
    and "\<forall>p<N. particle_y pos p = (rnd (k + 3 * p + 1) - 0.5) * 40"
  shows "heights_bounded pos"
  unfolding heights_bounded_def
proof (intro allI impI)
  fix j assume j: "j < length pos" "j mod 3 = 1"
  define p where "p = j div 3"
  have jp: "j = 3 * p + 1"
    using j(2) unfolding p_def by presburger
  have "p < N"
    using j(1) assms(2) jp by simp
  then have "pos ! j = (rnd (k + 3 * p + 1) - 0.5) * 40"
    using assms(3) jp by (simp add: particle_y_def)
  moreover have "0 \<le> rnd (k + 3 * p + 1)" "rnd (k + 3 * p + 1) < 1"
    using assms(1) by (simp_all add: random_in_range_def)
  ultimately show "- 20 \<le> pos ! j \<and> pos ! j \<le> 20"
    by simp
qed

lemma effect_mounted:
  assumes "random_in_range (env_random env)" and "env_mount env = Some (w, h)"
  shows "\<exists>s0. effect env = Inr (Some s0)
     \<and> camera_aspect s0 = js_div (real w) (real h)
     \<and> renderer_size s0 = (w, h) \<and> composer_size s0 = (w, h)
     \<and> renderer_pixelRatio s0 = min (env_devicePixelRatio env) 2
     \<and> globalUniforms_uPixelRatio s0 = min (env_devicePixelRatio env) 2
     \<and> globalUniforms_pointTexture s0 = createBokehTexture (env_context2d env)
     \<and> globalUniforms_uTime s0 = env_time env
     \<and> \<not> renderer_disposed s0 \<and> resize_listener s0
     \<and> scene_children s0 = [TreeNode, HeartNode, BaseNode, SnowNode]
     \<and> raf_pending s0 = [1] \<and> animationFrameId s0 = Some 1
     \<and> frames_rendered s0 = 1
     \<and> length (snow_positions s0) = 4500 \<and> heights_bounded (snow_positions s0)"
proof -
  obtain tree where tree: "createGlitterTree (env_three env) (env_random env) 0 = Inr (tree, 0 + 8 * 40000)"
    using glitterTree_result[OF assms(1), of 40000 "env_three env" 0]
    unfolding createGlitterTree_def by blast
  obtain heart k2 where heart: "createSolidHeart (env_three env) (env_random env) (0 + 8 * 40000) = (heart, k2)"
    by (cases "createSolidHeart (env_three env) (env_random env) (0 + 8 * 40000)")
  obtain base k3 where base: "createSwirlingBase (env_three env) (env_random env) k2 = (base, k3)"
    by (cases "createSwirlingBase (env_three env) (env_random env) k2")
  obtain pos where snw: "createSnow (env_random env) k3 =
          (new_Points
             \<lparr> attr_position = Float32BufferAttribute pos 3,
               attr_color = None, attr_size = None, attr_speed = None, attr_phase = None \<rparr>
             (PointsMaterial 16772846 0.1 0.3 True False AdditiveBlending), k3 + 3 * 1500)"
    and len: "length pos = 3 * 1500"
    and form: "\<forall>p<1500. particle_x pos p = (env_random env (k3 + 3 * p) - 0.5) * 50
                 \<and> particle_y pos p = (env_random env (k3 + 3 * p + 1) - 0.5) * 40
                 \<and> particle_z pos p = (env_random env (k3 + 3 * p + 2) - 0.5) * 50"
    using snow_result[of 1500 "env_random env" k3] unfolding createSnow_def by blast
  have hb: "heights_bounded pos"
    using initial_snow_bounded[OF assms(1) len, of k3] form by blast
  define snw0 where "snw0 = new_Points
             \<lparr> attr_position = Float32BufferAttribute pos 3,
               attr_color = None, attr_size = None, attr_speed = None, attr_phase = None \<rparr>
             (PointsMaterial 16772846 0.1 0.3 True False AdditiveBlending)"
  define s where "s =
     \<lparr> camera_aspect = js_div (real w) (real h),
       renderer_size = (w, h),
       renderer_pixelRatio = min (env_devicePixelRatio env) 2,
       renderer_disposed = False,
       composer_size = (w, h),
       globalUniforms_uTime = 0,
       globalUniforms_uPixelRatio = min (env_devicePixelRatio env) 2,
       globalUniforms_pointTexture = createBokehTexture (env_context2d env),
       scene_children = [TreeNode, HeartNode, BaseNode, SnowNode],
       treeSystem = tree,
       heartSystem = heart,
       baseSystem = base,
       snowSystem = snw0,
       animationFrameId = None,
       raf_pending = [],
       raf_next = 1,
       resize_listener = False,
       frames_rendered = 0 \<rparr>"
  have eff: "effect env = Inr (Some ((animate (env_time env) s)\<lparr> resize_listener := True \<rparr>))"
    unfolding effect_def assms(2) option.case prod.case Let_def tree sum.case heart base snw
    unfolding s_def snw0_def by (rule refl)
  have sp: "snow_positions s = pos"
    by (simp add: s_def snw0_def snow_positions_def new_Points_def Float32BufferAttribute_def)
  have sp': "snow_positions ((animate (env_time env) s)\<lparr> resize_listener := True \<rparr>)
           = snow_loop (env_time env) 1 pos"
    using animate_written(6)[of "env_time env" s] unfolding sp by (simp add: snow_positions_def)
  have b: "heights_bounded (snow_loop (env_time env) 1 pos)"
    using snow_loop_bounded[OF hb] .
  have l: "length (snow_loop (env_time env) 1 pos) = 4500"
    using len by (simp add: length_snow_loop)
  have fields: "camera_aspect s = js_div (real w) (real h)" "renderer_size s = (w, h)"
    "composer_size s = (w, h)" "renderer_pixelRatio s = min (env_devicePixelRatio env) 2"
    "globalUniforms_uPixelRatio s = min (env_devicePixelRatio env) 2"
    "globalUniforms_pointTexture s = createBokehTexture (env_context2d env)"
    "\<not> renderer_disposed s" "scene_children s = [TreeNode, HeartNode, BaseNode, SnowNode]"
    "raf_pending s = []" "raf_next s = 1" "frames_rendered s = 0"
    by (simp_all add: s_def)
  show ?thesis
    unfolding eff using fields b l unfolding sp'[symmetric]
    by (intro exI[of _ "(animate (env_time env) s)\<lparr> resize_listener := True \<rparr>"]) simp
qed

lemma example_env_facts:
  "random_in_range (env_random example_env)"
  "env_mount example_env = Some (800, 600)"
  by (simp_all add: example_env_def quarter_source_def random_in_range_def)

lemma onWindowResize_written:
  "camera_aspect (onWindowResize (Some (w, h)) d s) = js_div (real w) (real h)"
  "renderer_size (onWindowResize (Some (w, h)) d s) = (w, h)"
  "composer_size (onWindowResize (Some (w, h)) d s) = (w, h)"
  "globalUniforms_uPixelRatio (onWindowResize (Some (w, h)) d s) = min d 2"
  by (simp_all add: onWindowResize_def)


section \<open>The heart curve\<close>

text \<open>
  Seen from its origin the heart curve turns one way only: \<open>x' y - x y'\<close> is never
  negative, and it is zero only at the cleft and at the tip, where \<open>sin t = 0\<close>. This
  is what makes the points \<open>s \<cdot> (x(t), y(t))\<close> with \<open>0 \<le> s \<le> 1\<close> the region the curve
  bounds.
\<close>

lemma heart_curve_x_derivative:
  "(heart_curve_x has_real_derivative heart_curve_dx t) (at t)"
  unfolding heart_curve_x_def[abs_def] heart_curve_dx_def
  by (auto intro!: derivative_eq_intros simp: power2_eq_square)

lemma heart_curve_y_derivative:
  "(heart_curve_y has_real_derivative heart_curve_dy t) (at t)"
  unfolding heart_curve_y_def[abs_def] heart_curve_dy_def
  by (auto intro!: derivative_eq_intros)

lemma heart_quintic_positive:
  fixes c :: real
  assumes "- 1 \<le> c" and "c \<le> 1"
  shows "7 \<le> 8 * c ^ 5 - 34 * c ^ 3 + 14 * c ^ 2 + 8 * c + 19"
proof (cases "0 \<le> c")
  case True
  define A where "A = c ^ 5"
  define B where "B = c ^ 2 - c ^ 3"
  define D where "D = (1 - c) * (3 + 5 * c)"
  have a: "0 \<le> A"
    unfolding A_def using True by simp
  have "c ^ 2 * c \<le> c ^ 2 * 1"
    using assms(2) by (intro mult_left_mono) simp_all
  then have b: "0 \<le> B"
    unfolding B_def by (simp add: power3_eq_cube power2_eq_square)
  have d: "0 \<le> D"
    unfolding D_def using True assms(2) by (intro mult_nonneg_nonneg) simp_all
  have eq: "8 * c ^ 5 - 34 * c ^ 3 + 14 * c ^ 2 + 8 * c + 19 = 7 + 8 * A + 34 * B + 4 * D"
    unfolding A_def B_def D_def by (simp add: algebra_simps power2_eq_square)
  have "7 \<le> 7 + 8 * A + 34 * B + 4 * D"
    using a b d by linarith
  then show ?thesis
    unfolding eq .
next
  case False
  then have neg: "c \<le> 0" by simp
  define A where "A = - (c ^ 3)"
  define B where "B = c ^ 2"
  define E where "E = A * (1 - B)"
  have "c * c * c \<le> 0"
    using neg by (simp add: mult_le_0_iff zero_le_mult_iff)
  then have a: "0 \<le> A"
    unfolding A_def by (simp add: power3_eq_cube)
  have "\<bar>c\<bar> \<le> 1"
    using assms by simp
  then have b: "0 \<le> B" "B \<le> 1"
    unfolding B_def by (simp_all add: abs_square_le_1)
  have e: "0 \<le> E"
    unfolding E_def using a b by (intro mult_nonneg_nonneg) simp_all
  have eq: "8 * c ^ 5 - 34 * c ^ 3 + 14 * c ^ 2 + 8 * c + 19
        = 19 + 8 * c + 14 * B + 26 * A + 8 * E"
    unfolding A_def B_def E_def
    by (simp add: algebra_simps power2_eq_square power3_eq_cube power_numeral_reduce)
  have "7 \<le> 19 + 8 * c + 14 * B + 26 * A + 8 * E"
    using a b e assms(1) by linarith
  then show ?thesis
    unfolding eq .
qed

lemma heart_turning_formula:
  "heart_curve_dx t * heart_curve_y t - heart_curve_x t * heart_curve_dy t
   = 16 * sin t ^ 2 * (8 * cos t ^ 5 - 34 * cos t ^ 3 + 14 * cos t ^ 2 + 8 * cos t + 19)"
proof -
  define s where "s = sin t"
  define c where "c = cos t"
  have sc: "s ^ 2 = 1 - c ^ 2"
    unfolding s_def c_def by (rule sin_squared_eq)
  have c2: "cos (2 * t) = 2 * c ^ 2 - 1"
    unfolding c_def by (rule cos_double_cos)
  have c3: "cos (3 * t) = 4 * c ^ 3 - 3 * c"
    unfolding c_def by (rule cos_treble_cos)
  have "cos (4 * t) = cos (2 * (2 * t))" by simp
  also have "\<dots> = 2 * cos (2 * t) ^ 2 - 1" by (rule cos_double_cos)
  finally have c4: "cos (4 * t) = 2 * (2 * c ^ 2 - 1) ^ 2 - 1"
    unfolding c2 .
  have s2: "sin (2 * t) = 2 * s * c"
    unfolding s_def c_def by (rule sin_double)
  have "sin (3 * t) = sin (2 * t + t)" by simp
  also have "\<dots> = sin (2 * t) * cos t + cos (2 * t) * sin t" by (rule sin_add)
  finally have s3: "sin (3 * t) = 2 * s * c * c + (2 * c ^ 2 - 1) * s"
    unfolding s2 c2 unfolding s_def c_def .
  have "sin (4 * t) = sin (2 * (2 * t))" by simp
  also have "\<dots> = 2 * sin (2 * t) * cos (2 * t)" by (rule sin_double)
  finally have s4: "sin (4 * t) = 2 * (2 * s * c) * (2 * c ^ 2 - 1)"
    unfolding s2 c2 .
  have "48 * s ^ 2 * c * (13 * c - 5 * (2 * c ^ 2 - 1) - 2 * (4 * c ^ 3 - 3 * c)
            - (2 * (2 * c ^ 2 - 1) ^ 2 - 1))
        - 16 * s ^ 3 * (- 13 * s + 10 * (2 * s * c) + 6 * (2 * s * c * c + (2 * c ^ 2 - 1) * s)
            + 4 * (2 * (2 * s * c) * (2 * c ^ 2 - 1)))
        = 16 * s ^ 2 * (8 * c ^ 5 - 34 * c ^ 3 + 14 * c ^ 2 + 8 * c + 19)"
    using sc by algebra
  then show ?thesis
    unfolding heart_curve_dx_def heart_curve_dy_def heart_curve_x_def heart_curve_y_def
      c2 c3 c4 s2 s3 s4
    unfolding s_def c_def .
qed

lemma heart_turns_strictly:
  assumes "sin t \<noteq> 0"
  shows "0 < heart_curve_dx t * heart_curve_y t - heart_curve_x t * heart_curve_dy t"
proof -
  have "7 \<le> 8 * cos t ^ 5 - 34 * cos t ^ 3 + 14 * cos t ^ 2 + 8 * cos t + 19"
    by (intro heart_quintic_positive) simp_all
  then have q: "0 < 8 * cos t ^ 5 - 34 * cos t ^ 3 + 14 * cos t ^ 2 + 8 * cos t + 19"
    by linarith
  have "0 < 16 * sin t ^ 2"
    using assms by simp
  from this q have "0 < 16 * sin t ^ 2 * (8 * cos t ^ 5 - 34 * cos t ^ 3 + 14 * cos t ^ 2 + 8 * cos t + 19)"
    by (rule mult_pos_pos)
  then show ?thesis
    unfolding heart_turning_formula .
qed

lemma heart_turns_one_way:
  "0 \<le> heart_curve_dx t * heart_curve_y t - heart_curve_x t * heart_curve_dy t"
proof -
  have "7 \<le> 8 * cos t ^ 5 - 34 * cos t ^ 3 + 14 * cos t ^ 2 + 8 * cos t + 19"
    by (intro heart_quintic_positive) simp_all
  then have "0 \<le> 16 * sin t ^ 2 * (8 * cos t ^ 5 - 34 * cos t ^ 3 + 14 * cos t ^ 2 + 8 * cos t + 19)"
    by (intro mult_nonneg_nonneg) simp_all
  then show ?thesis
    unfolding heart_turning_formula .
qed


section \<open>The breathing modulation\<close>

lemma sineWave_bounds: "0 \<le> sineWave t s p \<and> sineWave t s p \<le> 1"
proof -
  have "- 1 \<le> sin (t * s + p)" and "sin (t * s + p) \<le> 1"
    by simp_all
  then show ?thesis
    unfolding sineWave_def Let_def by linarith
qed

lemma sineWave_period:
  assumes "s \<noteq> 0"
  shows "sineWave (t + 2 * pi / s) s p = sineWave t s p"
proof -
  have "(t + 2 * pi / s) * s + p = (t * s + p) + 2 * pi"
    using assms by (simp add: field_simps)
  then have "sin ((t + 2 * pi / s) * s + p) = sin (t * s + p)"
    by (simp only: sin_periodic)
  then show ?thesis
    by (simp add: sineWave_def)
qed

text \<open>
  C3. For every time, speed and phase the breathing scalar lies in \<open>[0, 1]\<close>, the
  opacity in \<open>[0.5, 1]\<close>, the intensity in \<open>[0.8, 3]\<close> and the size pulse in
  \<open>[0.8, 1.2]\<close>; and wherever the view-space depth is not zero the point size is
  size times size pulse times pixel ratio times \<open>200 / -mvPosition.z\<close>.
\<close>

theorem breathing_ranges_and_point_size:
  "0 \<le> sineWave (uTime U) (a_speed A) (a_phase A)
   \<and> sineWave (uTime U) (a_speed A) (a_phase A) \<le> 1
   \<and> vOpacity (sparkleVertexShader U A) = 0.5 + 0.5 * sineWave (uTime U) (a_speed A) (a_phase A)
   \<and> 0.5 \<le> vOpacity (sparkleVertexShader U A) \<and> vOpacity (sparkleVertexShader U A) \<le> 1.0
   \<and> vIntensity (sparkleVertexShader U A) = 0.8 + 2.2 * sineWave (uTime U) (a_speed A) (a_phase A)
   \<and> 0.8 \<le> vIntensity (sparkleVertexShader U A) \<and> vIntensity (sparkleVertexShader U A) \<le> 3.0
   \<and> 0.8 \<le> sizePulse (uTime U) (a_speed A) (a_phase A)
   \<and> sizePulse (uTime U) (a_speed A) (a_phase A) \<le> 1.2
   \<and> (v4z (mvPosition U A) \<noteq> 0 \<longrightarrow>
        gl_PointSize (sparkleVertexShader U A) =
          Some (a_size A * sizePulse (uTime U) (a_speed A) (a_phase A) * uPixelRatio U
                * (200 / - v4z (mvPosition U A))))"
proof -
  have b: "0 \<le> sineWave (uTime U) (a_speed A) (a_phase A)"
          "sineWave (uTime U) (a_speed A) (a_phase A) \<le> 1"
    using sineWave_bounds by blast+
  have ps: "v4z (mvPosition U A) \<noteq> 0 \<longrightarrow>
        gl_PointSize (sparkleVertexShader U A) =
          Some (a_size A * sizePulse (uTime U) (a_speed A) (a_phase A) * uPixelRatio U
                * (200 / - v4z (mvPosition U A)))"
    by (simp add: sparkleVertexShader_def Let_def js_div_def)
  have op: "vOpacity (sparkleVertexShader U A) = 0.5 + 0.5 * sineWave (uTime U) (a_speed A) (a_phase A)"
    and it: "vIntensity (sparkleVertexShader U A) = 0.8 + 2.2 * sineWave (uTime U) (a_speed A) (a_phase A)"
    by (simp_all add: sparkleVertexShader_def Let_def)
  have sp: "0.8 \<le> sizePulse (uTime U) (a_speed A) (a_phase A)"
           "sizePulse (uTime U) (a_speed A) (a_phase A) \<le> 1.2"
    using b unfolding sizePulse_def by linarith+
  show ?thesis
    using b ps sp unfolding op it by (intro conjI; (assumption | linarith | simp))
qed


theorem breathing_ranges_and_point_size_witness:
  "v4z (mvPosition
          \<lparr> uTime = 0, uPixelRatio = 1,
            modelViewMatrix = Mat4 (Vec4 1 0 0 0) (Vec4 0 1 0 0) (Vec4 0 0 1 0) (Vec4 0 0 (- 20.04) 1),
            projectionMatrix = Mat4 (Vec4 1 0 0 0) (Vec4 0 1 0 0) (Vec4 0 0 1 0) (Vec4 0 0 0 1) \<rparr>
          \<lparr> a_position = Vec3 0 0 0, a_size = 1, a_speed = 1, a_phase = 0,
            a_color = Vec3 1 1 1 \<rparr>) \<noteq> 0
   \<and> gl_PointSize (sparkleVertexShader
          \<lparr> uTime = 0, uPixelRatio = 1,
            modelViewMatrix = Mat4 (Vec4 1 0 0 0) (Vec4 0 1 0 0) (Vec4 0 0 1 0) (Vec4 0 0 (- 20.04) 1),
            projectionMatrix = Mat4 (Vec4 1 0 0 0) (Vec4 0 1 0 0) (Vec4 0 0 1 0) (Vec4 0 0 0 1) \<rparr>
          \<lparr> a_position = Vec3 0 0 0, a_size = 1, a_speed = 1, a_phase = 0,
            a_color = Vec3 1 1 1 \<rparr>) = Some 10"
proof -
  let ?U = "\<lparr> uTime = 0, uPixelRatio = 1,
            modelViewMatrix = Mat4 (Vec4 1 0 0 0) (Vec4 0 1 0 0) (Vec4 0 0 1 0) (Vec4 0 0 (- 20.04) 1),
            projectionMatrix = Mat4 (Vec4 1 0 0 0) (Vec4 0 1 0 0) (Vec4 0 0 1 0) (Vec4 0 0 0 1) \<rparr>"
  let ?A = "\<lparr> a_position = Vec3 0 0 0, a_size = 1, a_speed = 1, a_phase = 0,
            a_color = Vec3 1 1 1 \<rparr>"
  have z: "v4z (mvPosition ?U ?A) = - 20"
    by (simp add: mvPosition_def displaced_def rot2d_def getTurbulence_def Let_def)
  have p: "sizePulse 0 1 0 = 1"
    by (simp add: sizePulse_def sineWave_def)
  have "v4z (mvPosition ?U ?A) \<noteq> 0 \<longrightarrow>
        gl_PointSize (sparkleVertexShader ?U ?A) =
          Some (a_size ?A * sizePulse (uTime ?U) (a_speed ?A) (a_phase ?A) * uPixelRatio ?U
                * (200 / - v4z (mvPosition ?U ?A)))"
    using breathing_ranges_and_point_size[of ?U ?A] by blast
  then show ?thesis
    unfolding z by (simp add: p)
qed

text \<open>
  C4. For a speed \<open>s > 0\<close> the breathing scalar, the size pulse and the opacity and
  intensity the shader writes are the same at time \<open>t\<close> and at time \<open>t + 2 \<pi> / s\<close>.
\<close>

theorem breathing_periodic:
  assumes "0 < s"
  shows "sineWave (t + 2 * pi / s) s p = sineWave t s p
       \<and> sizePulse (t + 2 * pi / s) s p = sizePulse t s p
       \<and> vOpacity (sparkleVertexShader (U\<lparr> uTime := t + 2 * pi / s \<rparr>) (A\<lparr> a_speed := s, a_phase := p \<rparr>))
           = vOpacity (sparkleVertexShader (U\<lparr> uTime := t \<rparr>) (A\<lparr> a_speed := s, a_phase := p \<rparr>))
       \<and> vIntensity (sparkleVertexShader (U\<lparr> uTime := t + 2 * pi / s \<rparr>) (A\<lparr> a_speed := s, a_phase := p \<rparr>))
           = vIntensity (sparkleVertexShader (U\<lparr> uTime := t \<rparr>) (A\<lparr> a_speed := s, a_phase := p \<rparr>))"
proof -
  have sw: "sineWave (t + 2 * pi / s) s p = sineWave t s p"
    using assms by (intro sineWave_period) simp
  then show ?thesis
    by (simp add: sizePulse_def sparkleVertexShader_def Let_def)
qed

theorem breathing_periodic_witness:
  "(0::real) < 1
   \<and> sineWave (0 + 2 * pi / 1) 1 0 = sineWave 0 1 0
   \<and> sizePulse (0 + 2 * pi / 1) 1 0 = sizePulse 0 1 0
   \<and> vOpacity (sparkleVertexShader
        (\<lparr> uTime = 5, uPixelRatio = 1,
            modelViewMatrix = Mat4 (Vec4 1 0 0 0) (Vec4 0 1 0 0) (Vec4 0 0 1 0) (Vec4 0 0 (- 18) 1),
            projectionMatrix = Mat4 (Vec4 1 0 0 0) (Vec4 0 1 0 0) (Vec4 0 0 1 0) (Vec4 0 0 0 1) \<rparr>
          \<lparr> uTime := 0 + 2 * pi / 1 \<rparr>)
        (\<lparr> a_position = Vec3 0 0 0, a_size = 1, a_speed = 3, a_phase = 2, a_color = Vec3 1 1 1 \<rparr>
          \<lparr> a_speed := 1, a_phase := 0 \<rparr>))
     = vOpacity (sparkleVertexShader
        (\<lparr> uTime = 5, uPixelRatio = 1,
            modelViewMatrix = Mat4 (Vec4 1 0 0 0) (Vec4 0 1 0 0) (Vec4 0 0 1 0) (Vec4 0 0 (- 18) 1),
            projectionMatrix = Mat4 (Vec4 1 0 0 0) (Vec4 0 1 0 0) (Vec4 0 0 1 0) (Vec4 0 0 0 1) \<rparr>
          \<lparr> uTime := 0 \<rparr>)
        (\<lparr> a_position = Vec3 0 0 0, a_size = 1, a_speed = 3, a_phase = 2, a_color = Vec3 1 1 1 \<rparr>
          \<lparr> a_speed := 1, a_phase := 0 \<rparr>))"
proof -
  have h: "(0::real) < 1" by simp
  show ?thesis
    using h breathing_periodic[OF h, of 0 0
        "\<lparr> uTime = 5, uPixelRatio = 1,
            modelViewMatrix = Mat4 (Vec4 1 0 0 0) (Vec4 0 1 0 0) (Vec4 0 0 1 0) (Vec4 0 0 (- 18) 1),
            projectionMatrix = Mat4 (Vec4 1 0 0 0) (Vec4 0 1 0 0) (Vec4 0 0 1 0) (Vec4 0 0 0 1) \<rparr>"
        "\<lparr> a_position = Vec3 0 0 0, a_size = 1, a_speed = 3, a_phase = 2, a_color = Vec3 1 1 1 \<rparr>"]
    by blast
qed


section \<open>The generated point clouds\<close>

text \<open>
  C2. For every particle count \<open>N\<close> each profile produces parallel attribute arrays
  with exactly \<open>N\<close> entries: \<open>N\<close> triples for position and colour and \<open>N\<close> scalars for
  size, speed and phase (position alone for the snow). The tree generator returns, and
  every tree particle has its height within \<open>[-6, 6]\<close> and its distance from the trunk at
  most \<open>5.5 \<cdot> (1 - (y + 6) / 12) \<cdot> 1.3\<close>.
\<close>

theorem generators_counts_and_tree_bounds:
  assumes "random_in_range rnd"
  shows "(\<exists>tree k'. glitterTree N T rnd k = Inr (tree, k')
            \<and> five_attributes (geometry tree) N
            \<and> (\<forall>i<N. tree_point_ok (particle_x (array (attr_position (geometry tree))) i)
                                     (particle_y (array (attr_position (geometry tree))) i)
                                     (particle_z (array (attr_position (geometry tree))) i)))
       \<and> five_attributes (geometry (fst (solidHeart N T rnd k))) N
       \<and> five_attributes (geometry (fst (swirlingBase N T rnd k))) N
       \<and> has_items (attr_position (geometry (fst (snow N rnd k)))) N 3"
proof -
  have tree: "\<exists>tree k'. glitterTree N T rnd k = Inr (tree, k')
            \<and> five_attributes (geometry tree) N
            \<and> (\<forall>i<N. tree_point_ok (particle_x (array (attr_position (geometry tree))) i)
                                     (particle_y (array (attr_position (geometry tree))) i)
                                     (particle_z (array (attr_position (geometry tree))) i))"
    using glitterTree_result[OF assms, of N T k] by blast
  have heart: "five_attributes (geometry (fst (solidHeart N T rnd k))) N"
    using solidHeart_result[of N T rnd k] by (auto simp: new_Points_def)
  have base: "five_attributes (geometry (fst (swirlingBase N T rnd k))) N"
    using swirlingBase_result[of N T rnd k] by (auto simp: new_Points_def)
  have snw: "has_items (attr_position (geometry (fst (snow N rnd k)))) N 3"
    using snow_result[of N rnd k] by (auto simp: new_Points_def has_items_Float32)
  show ?thesis
    using tree heart base snw by blast
qed

theorem generators_counts_and_tree_bounds_witness:
  "random_in_range (\<lambda>k. 0)
   \<and> (0::nat) < 1
   \<and> (\<exists>tree k'. glitterTree 1 \<lparr> Color = (\<lambda>h. \<lparr> col_r = 1, col_g = 0, col_b = 0 \<rparr>),
                                  Color_setHSL = (\<lambda>h s l. \<lparr> col_r = 1, col_g = 0, col_b = 0 \<rparr>) \<rparr>
                     (\<lambda>k. 0) 0 = Inr (tree, k')
         \<and> five_attributes (geometry tree) 1
         \<and> array (attr_position (geometry tree)) = [0, - 6, 0]
         \<and> tree_point_ok (particle_x (array (attr_position (geometry tree))) 0)
                         (particle_y (array (attr_position (geometry tree))) 0)
                         (particle_z (array (attr_position (geometry tree))) 0))
   \<and> five_attributes (geometry (fst (solidHeart 1 \<lparr> Color = (\<lambda>h. \<lparr> col_r = 1, col_g = 0, col_b = 0 \<rparr>),
                                  Color_setHSL = (\<lambda>h s l. \<lparr> col_r = 1, col_g = 0, col_b = 0 \<rparr>) \<rparr>
                     (\<lambda>k. 0) 0))) 1"
proof -
  let ?T = "\<lparr> Color = (\<lambda>h. \<lparr> col_r = 1, col_g = 0, col_b = 0 \<rparr>),
             Color_setHSL = (\<lambda>h s l. \<lparr> col_r = 1, col_g = 0, col_b = 0 \<rparr>) \<rparr>"
  have h: "random_in_range (\<lambda>k. 0)"
    by (simp add: random_in_range_def)
  note inst = generators_counts_and_tree_bounds[OF h, of 1 ?T 0]
  obtain tree k' where t: "glitterTree 1 ?T (\<lambda>k. 0) 0 = Inr (tree, k')"
    and five: "five_attributes (geometry tree) 1"
    and ok: "\<forall>i<1. tree_point_ok (particle_x (array (attr_position (geometry tree))) i)
                                  (particle_y (array (attr_position (geometry tree))) i)
                                  (particle_z (array (attr_position (geometry tree))) i)"
    using inst by blast
  have "for_loop_try 0 1 (tree_body ?T (\<lambda>k. 0)) (no_particles, 0)
        = tree_body ?T (\<lambda>k. 0) (no_particles, 0)"
    by (simp add: for_loop_try.simps split: sum.splits)
  moreover have "\<exists>a. tree_body ?T (\<lambda>k. 0) (no_particles, 0) = Inr (a, 8) \<and> positions a = [0, - 6, 0]"
    by (simp add: tree_body_def Let_def palette_def js_index_def no_particles_def)
  ultimately have "array (attr_position (geometry tree)) = [0, - 6, 0]"
    using t by (auto simp: glitterTree_def new_Points_def sparkle_geometry_def
        Float32BufferAttribute_def)
  then show ?thesis
    using h t five ok inst by auto
qed

text \<open>
  C5. Every heart particle is the boundary point of the heart curve at
  \<open>t = 2 \<pi> \<cdot> random\<close>, with a depth jitter in \<open>[-3, 3)\<close>, all three axes scaled by the
  square root of a random value (a factor in \<open>[0, 1)\<close>), then scaled by 0.05 and
  lifted by 6.2; so its \<open>(x, y)\<close>, with the placement undone, is a boundary point pulled
  towards the curve's origin by a factor in \<open>[0, 1]\<close>: on or inside the heart.
\<close>

theorem heart_interior_fill:
  assumes "random_in_range rnd" and "i < N"
  shows "let pos = array (attr_position (geometry (fst (solidHeart N T rnd k))));
             t = rnd (k + 7 * i) * pi * 2;
             jitter = (rnd (k + 7 * i + 1) - 0.5) * 6;
             scaleVol = sqrt (rnd (k + 7 * i + 2))
         in 0 \<le> t \<and> t < 2 * pi \<and> - 3 \<le> jitter \<and> jitter < 3
          \<and> 0 \<le> scaleVol \<and> scaleVol < 1
          \<and> particle_x pos i = heart_curve_x t * scaleVol * 0.05
          \<and> particle_y pos i = heart_curve_y t * scaleVol * 0.05 + 6.2
          \<and> particle_z pos i = jitter * scaleVol * 0.05
          \<and> on_or_inside_heart (particle_x pos i / 0.05) ((particle_y pos i - 6.2) / 0.05)"
proof -
  define pos where "pos = array (attr_position (geometry (fst (solidHeart N T rnd k))))"
  define t where "t = rnd (k + 7 * i) * pi * 2"
  define jitter where "jitter = (rnd (k + 7 * i + 1) - 0.5) * 6"
  define scaleVol where "scaleVol = sqrt (rnd (k + 7 * i + 2))"
  have rng: "\<And>j. 0 \<le> rnd j" "\<And>j. rnd j < 1"
    using assms(1) by (simp_all add: random_in_range_def)
  have t: "0 \<le> t" "t < 2 * pi"
    unfolding t_def using rng(1)[of "k + 7 * i"] rng(2)[of "k + 7 * i"] by simp_all
  have j: "- 3 \<le> jitter" "jitter < 3"
    unfolding jitter_def using rng(1)[of "k + 7 * i + 1"] rng(2)[of "k + 7 * i + 1"] by simp_all
  have s: "0 \<le> scaleVol" "scaleVol < 1"
    unfolding scaleVol_def using rng(1)[of "k + 7 * i + 2"] rng(2)[of "k + 7 * i + 2"]
    by simp_all
  obtain a where "solidHeart N T rnd k =
          (new_Points (sparkle_geometry a) (ShaderMaterial NormalBlending False True None), k + 7 * N)"
    and "array (attr_position (sparkle_geometry a)) = positions a"
    and form: "\<forall>p<N.
              particle_x (positions a) p
                = 16 * sin (rnd (k + 7 * p) * pi * 2) ^ 3 * sqrt (rnd (k + 7 * p + 2)) * 0.05
            \<and> particle_y (positions a) p
                = (13 * cos (rnd (k + 7 * p) * pi * 2) - 5 * cos (2 * (rnd (k + 7 * p) * pi * 2))
                   - 2 * cos (3 * (rnd (k + 7 * p) * pi * 2)) - cos (4 * (rnd (k + 7 * p) * pi * 2)))
                  * sqrt (rnd (k + 7 * p + 2)) * 0.05 + 6.2
            \<and> particle_z (positions a) p
                = (rnd (k + 7 * p + 1) - 0.5) * 6 * sqrt (rnd (k + 7 * p + 2)) * 0.05"
    using solidHeart_result[of N T rnd k] by blast
  then have pa: "pos = positions a"
    by (simp add: pos_def new_Points_def)
  have x: "particle_x pos i = heart_curve_x t * scaleVol * 0.05"
    and y: "particle_y pos i = heart_curve_y t * scaleVol * 0.05 + 6.2"
    and z: "particle_z pos i = jitter * scaleVol * 0.05"
    using form assms(2)
    unfolding pa heart_curve_x_def heart_curve_y_def t_def jitter_def scaleVol_def by blast+
  have "particle_x pos i / 0.05 = scaleVol * heart_curve_x t"
    and "(particle_y pos i - 6.2) / 0.05 = scaleVol * heart_curve_y t"
    unfolding x y by simp_all
  then have "on_or_inside_heart (particle_x pos i / 0.05) ((particle_y pos i - 6.2) / 0.05)"
    unfolding on_or_inside_heart_def using s by (intro exI[of _ t] exI[of _ scaleVol]) simp
  then show ?thesis
    using t j s x y z unfolding Let_def pos_def t_def jitter_def scaleVol_def by blast
qed

theorem heart_interior_fill_witness:
  "random_in_range (\<lambda>k. 1 / 4) \<and> (0::nat) < 1
   \<and> particle_x (array (attr_position (geometry (fst (solidHeart 1
          \<lparr> Color = (\<lambda>h. \<lparr> col_r = 1, col_g = 0, col_b = 0 \<rparr>),
            Color_setHSL = (\<lambda>h s l. \<lparr> col_r = 1, col_g = 0, col_b = 0 \<rparr>) \<rparr>
          (\<lambda>k. 1 / 4) 0))))) 0 = 0.4
   \<and> particle_y (array (attr_position (geometry (fst (solidHeart 1
          \<lparr> Color = (\<lambda>h. \<lparr> col_r = 1, col_g = 0, col_b = 0 \<rparr>),
            Color_setHSL = (\<lambda>h s l. \<lparr> col_r = 1, col_g = 0, col_b = 0 \<rparr>) \<rparr>
          (\<lambda>k. 1 / 4) 0))))) 0 = 6.3
   \<and> on_or_inside_heart
        (particle_x (array (attr_position (geometry (fst (solidHeart 1
          \<lparr> Color = (\<lambda>h. \<lparr> col_r = 1, col_g = 0, col_b = 0 \<rparr>),
            Color_setHSL = (\<lambda>h s l. \<lparr> col_r = 1, col_g = 0, col_b = 0 \<rparr>) \<rparr>
          (\<lambda>k. 1 / 4) 0))))) 0 / 0.05)
        ((particle_y (array (attr_position (geometry (fst (solidHeart 1
          \<lparr> Color = (\<lambda>h. \<lparr> col_r = 1, col_g = 0, col_b = 0 \<rparr>),
            Color_setHSL = (\<lambda>h s l. \<lparr> col_r = 1, col_g = 0, col_b = 0 \<rparr>) \<rparr>
          (\<lambda>k. 1 / 4) 0))))) 0 - 6.2) / 0.05)"
proof -
  let ?T = "\<lparr> Color = (\<lambda>h. \<lparr> col_r = 1, col_g = 0, col_b = 0 \<rparr>),
             Color_setHSL = (\<lambda>h s l. \<lparr> col_r = 1, col_g = 0, col_b = 0 \<rparr>) \<rparr>"
  let ?pos = "array (attr_position (geometry (fst (solidHeart 1 ?T (\<lambda>k. 1 / 4) 0))))"
  have h: "random_in_range (\<lambda>k. 1 / 4)"
    by (simp add: random_in_range_def)
  have i: "(0::nat) < 1" by simp
  have hx: "heart_curve_x (1 / 4 * pi * 2) = 16"
    by (simp add: heart_curve_x_def)
  have c3: "cos (3 * (pi / 2)) = 0"
    using cos_3over2_pi by (simp add: field_simps)
  have hy: "heart_curve_y (1 / 4 * pi * 2) = 4"
    using c3 by (simp add: heart_curve_y_def)
  have sq: "sqrt (1 / 4) = 1 / 2"
    by (simp add: real_sqrt_divide)
  have "particle_x ?pos 0 = heart_curve_x (1 / 4 * pi * 2) * sqrt (1 / 4) * 0.05
      \<and> particle_y ?pos 0 = heart_curve_y (1 / 4 * pi * 2) * sqrt (1 / 4) * 0.05 + 6.2
      \<and> on_or_inside_heart (particle_x ?pos 0 / 0.05) ((particle_y ?pos 0 - 6.2) / 0.05)"
    using heart_interior_fill[OF h i, of ?T 0] unfolding Let_def by blast
  then have "particle_x ?pos 0 = 0.4 \<and> particle_y ?pos 0 = 6.3
      \<and> on_or_inside_heart (particle_x ?pos 0 / 0.05) ((particle_y ?pos 0 - 6.2) / 0.05)"
    unfolding hx hy sq by simp
  then show ?thesis
    using h i by blast
qed

text \<open>
  C7. Every snow position is \<open>((r\<^sub>1 - 0.5) \<cdot> 50, (r\<^sub>2 - 0.5) \<cdot> 40, (r\<^sub>3 - 0.5) \<cdot> 50)\<close> for
  three successive random values, so it lies in the cube \<open>[-25, 25)\<^sup>3\<close> (its height even
  in \<open>[-20, 20)\<close>); the snow geometry has no colour, size, speed or phase attribute,
  and its material is the uniform point material.
\<close>

theorem snow_in_cube_without_sparkle_attributes:
  assumes "random_in_range rnd" and "i < N"
  shows "let sys = fst (snow N rnd k);
             pos = array (attr_position (geometry sys))
         in particle_x pos i = (rnd (k + 3 * i) - 0.5) * 50
          \<and> particle_y pos i = (rnd (k + 3 * i + 1) - 0.5) * 40
          \<and> particle_z pos i = (rnd (k + 3 * i + 2) - 0.5) * 50
          \<and> - 25 \<le> particle_x pos i \<and> particle_x pos i < 25
          \<and> - 25 \<le> particle_y pos i \<and> particle_y pos i < 25
          \<and> - 25 \<le> particle_z pos i \<and> particle_z pos i < 25
          \<and> - 20 \<le> particle_y pos i \<and> particle_y pos i < 20
          \<and> attr_color (geometry sys) = None \<and> attr_size (geometry sys) = None
          \<and> attr_speed (geometry sys) = None \<and> attr_phase (geometry sys) = None
          \<and> material sys = PointsMaterial 16772846 0.1 0.3 True False AdditiveBlending"
proof -
  define sys where "sys = fst (snow N rnd k)"
  define pos where "pos = array (attr_position (geometry sys))"
  have rng: "\<And>j. 0 \<le> rnd j" "\<And>j. rnd j < 1"
    using assms(1) by (simp_all add: random_in_range_def)
  obtain ps where sn: "snow N rnd k =
          (new_Points
             \<lparr> attr_position = Float32BufferAttribute ps 3,
               attr_color = None, attr_size = None, attr_speed = None, attr_phase = None \<rparr>
             (PointsMaterial 16772846 0.1 0.3 True False AdditiveBlending), k + 3 * N)"
    and form: "\<forall>p<N. particle_x ps p = (rnd (k + 3 * p) - 0.5) * 50
                 \<and> particle_y ps p = (rnd (k + 3 * p + 1) - 0.5) * 40
                 \<and> particle_z ps p = (rnd (k + 3 * p + 2) - 0.5) * 50"
    using snow_result[of N rnd k] by blast
  have pp: "pos = ps"
    by (simp add: pos_def sys_def sn new_Points_def Float32BufferAttribute_def)
  have x: "particle_x pos i = (rnd (k + 3 * i) - 0.5) * 50"
    and y: "particle_y pos i = (rnd (k + 3 * i + 1) - 0.5) * 40"
    and z: "particle_z pos i = (rnd (k + 3 * i + 2) - 0.5) * 50"
    using form assms(2) unfolding pp by blast+
  have bx: "- 25 \<le> particle_x pos i \<and> particle_x pos i < 25"
    unfolding x using rng(1)[of "k + 3 * i"] rng(2)[of "k + 3 * i"] by simp
  have by': "- 20 \<le> particle_y pos i \<and> particle_y pos i < 20"
    unfolding y using rng(1)[of "k + 3 * i + 1"] rng(2)[of "k + 3 * i + 1"] by simp
  have bz: "- 25 \<le> particle_z pos i \<and> particle_z pos i < 25"
    unfolding z using rng(1)[of "k + 3 * i + 2"] rng(2)[of "k + 3 * i + 2"] by simp
  have by2: "- 25 \<le> particle_y pos i \<and> particle_y pos i < 25"
    using by' by linarith
  have attrs: "attr_color (geometry sys) = None \<and> attr_size (geometry sys) = None
          \<and> attr_speed (geometry sys) = None \<and> attr_phase (geometry sys) = None
          \<and> material sys = PointsMaterial 16772846 0.1 0.3 True False AdditiveBlending"
    by (simp add: sys_def sn new_Points_def)
  show ?thesis
    using x y z bx by' bz by2 attrs unfolding Let_def pos_def sys_def by blast
qed

theorem snow_in_cube_without_sparkle_attributes_witness:
  "random_in_range (\<lambda>k. 1 / 4) \<and> (0::nat) < 1
   \<and> array (attr_position (geometry (fst (snow 1 (\<lambda>k. 1 / 4) 0)))) = [- 12.5, - 10, - 12.5]
   \<and> - 25 \<le> particle_x (array (attr_position (geometry (fst (snow 1 (\<lambda>k. 1 / 4) 0))))) 0
   \<and> particle_x (array (attr_position (geometry (fst (snow 1 (\<lambda>k. 1 / 4) 0))))) 0 < 25
   \<and> - 20 \<le> particle_y (array (attr_position (geometry (fst (snow 1 (\<lambda>k. 1 / 4) 0))))) 0
   \<and> particle_y (array (attr_position (geometry (fst (snow 1 (\<lambda>k. 1 / 4) 0))))) 0 < 20
   \<and> - 25 \<le> particle_z (array (attr_position (geometry (fst (snow 1 (\<lambda>k. 1 / 4) 0))))) 0
   \<and> particle_z (array (attr_position (geometry (fst (snow 1 (\<lambda>k. 1 / 4) 0))))) 0 < 25
   \<and> attr_color (geometry (fst (snow 1 (\<lambda>k. 1 / 4) 0))) = None
   \<and> attr_phase (geometry (fst (snow 1 (\<lambda>k. 1 / 4) 0))) = None"
proof -
  have h: "random_in_range (\<lambda>k. 1 / 4)"
    by (simp add: random_in_range_def)
  have i: "(0::nat) < 1" by simp
  have "for_loop 0 1 (snow_body (\<lambda>k. 1 / 4)) ([], 0) = snow_body (\<lambda>k. 1 / 4) ([], 0)"
    by (simp add: for_loop.simps)
  then have "array (attr_position (geometry (fst (snow 1 (\<lambda>k. 1 / 4) 0)))) = [- 12.5, - 10, - 12.5]"
    by (simp add: snow_def snow_body_def new_Points_def Float32BufferAttribute_def)
  then show ?thesis
    using h i snow_in_cube_without_sparkle_attributes[OF h i, of 0] unfolding Let_def
    by blast
qed


section \<open>The falling snow\<close>

text \<open>
  C1. From the snow buffer the scene is built with, after any run of frames and
  resizes every snow particle's height lies within \<open>[-20, 20]\<close> (as it does in the
  buffer the generator returns); and one frame's update takes a height \<open>y\<close> to 20 if
  \<open>y - 0.03 < -20\<close>, and to \<open>y - 0.03\<close> otherwise.
\<close>

theorem snow_wrap_invariant:
  assumes "random_in_range (env_random env)" and "env_mount env = Some (w, h)"
    and "p < 1500" and "3 * q + 1 < length buf"
  shows "(\<exists>s0. effect env = Inr (Some s0)
            \<and> length (snow_positions (run evs s0)) = 4500
            \<and> - 20 \<le> particle_y (snow_positions (run evs s0)) p
            \<and> particle_y (snow_positions (run evs s0)) p \<le> 20)
       \<and> - 20 \<le> particle_y (array (attr_position (geometry (fst (createSnow (env_random env) k))))) p
       \<and> particle_y (array (attr_position (geometry (fst (createSnow (env_random env) k))))) p \<le> 20
       \<and> snow_positions (animate time s) = snow_loop time 1 (snow_positions s)
       \<and> particle_y (snow_loop time 1 buf) q =
            (if particle_y buf q - 0.03 < - 20 then 20 else particle_y buf q - 0.03)"
proof -
  obtain s0 where s0: "effect env = Inr (Some s0)"
    and len: "length (snow_positions s0) = 4500" and hb: "heights_bounded (snow_positions s0)"
    using effect_mounted[OF assms(1,2)] by blast
  have r: "heights_bounded (snow_positions (run evs s0))"
    "length (snow_positions (run evs s0)) = 4500"
    using run_snow[OF hb, of evs] len by simp_all
  have "3 * p + 1 < length (snow_positions (run evs s0))" "(3 * p + 1) mod 3 = 1"
    using assms(3) r(2) by simp_all
  then have y: "- 20 \<le> particle_y (snow_positions (run evs s0)) p
              \<and> particle_y (snow_positions (run evs s0)) p \<le> 20"
    using r(1) unfolding heights_bounded_def particle_y_def by blast
  have first: "\<exists>s0. effect env = Inr (Some s0)
            \<and> length (snow_positions (run evs s0)) = 4500
            \<and> - 20 \<le> particle_y (snow_positions (run evs s0)) p
            \<and> particle_y (snow_positions (run evs s0)) p \<le> 20"
    using s0 r(2) y by blast
  have rng: "0 \<le> env_random env (k + 3 * p + 1)" "env_random env (k + 3 * p + 1) < 1"
    using assms(1) by (simp_all add: random_in_range_def)
  have "particle_y (array (attr_position (geometry (fst (createSnow (env_random env) k))))) p
        = (env_random env (k + 3 * p + 1) - 0.5) * 40"
    using snow_result[of 1500 "env_random env" k] assms(3)
    by (auto simp: createSnow_def new_Points_def Float32BufferAttribute_def)
  then have gen: "- 20 \<le> particle_y (array (attr_position (geometry (fst (createSnow (env_random env) k))))) p
       \<and> particle_y (array (attr_position (geometry (fst (createSnow (env_random env) k))))) p \<le> 20"
    using rng by simp
  show ?thesis
    using first gen animate_written(6)[of time s] snow_loop_height[OF assms(4), of time]
    by blast
qed

theorem snow_wrap_invariant_witness:
  "random_in_range (env_random example_env) \<and> env_mount example_env = Some (800, 600)
   \<and> (0::nat) < 1500 \<and> 3 * 0 + 1 < length [0, - 19.98, 5 :: real]
   \<and> (\<exists>s0. effect example_env = Inr (Some s0)
         \<and> length (snow_positions
              (run [AnimationFrame 1, WindowResize (Some (400, 300)) 1, AnimationFrame 2] s0)) = 4500
         \<and> - 20 \<le> particle_y (snow_positions
              (run [AnimationFrame 1, WindowResize (Some (400, 300)) 1, AnimationFrame 2] s0)) 0
         \<and> particle_y (snow_positions
              (run [AnimationFrame 1, WindowResize (Some (400, 300)) 1, AnimationFrame 2] s0)) 0 \<le> 20)
   \<and> particle_y (snow_loop 0 1 [0, - 19.98, 5]) 0 = 20"
proof -
  have h3: "(0::nat) < 1500" by simp
  have h4: "3 * 0 + 1 < length [0, - 19.98, 5 :: real]" by simp
  note inst = snow_wrap_invariant[OF example_env_facts h3 h4,
      where evs = "[AnimationFrame 1, WindowResize (Some (400, 300)) 1, AnimationFrame 2]"
        and time = 0]
  have "particle_y (snow_loop 0 1 [0, - 19.98, 5]) 0 =
          (if particle_y [0, - 19.98, 5] 0 - 0.03 < - 20 then 20
           else particle_y [0, - 19.98, 5] 0 - 0.03)"
    using inst by blast
  then have "particle_y (snow_loop 0 1 [0, - 19.98, 5]) 0 = 20"
    by (simp add: particle_y_def)
  then show ?thesis
    using example_env_facts h3 h4 inst by blast
qed

text \<open>
  C10. One frame's snow update keeps the buffer's length and every particle's \<open>z\<close>;
  it moves \<open>x\<close> by \<open>sin (time \<cdot> 0.5 + (y - 0.03)) \<cdot> 0.01\<close> and \<open>y\<close> by the fall and the
  wrap. Over any run of frames and resizes of the mounted scene every \<open>z\<close> stays as it
  was.
\<close>

theorem snow_update_frame_condition:
  assumes "random_in_range (env_random env)" and "env_mount env = Some (w, h)"
    and "p < 1500" and "3 * q + 2 < length buf"
  shows "(\<exists>s0. effect env = Inr (Some s0)
            \<and> particle_z (snow_positions (run evs s0)) p = particle_z (snow_positions s0) p)
       \<and> length (snow_loop time 1 buf) = length buf
       \<and> particle_z (snow_loop time 1 buf) q = particle_z buf q
       \<and> particle_x (snow_loop time 1 buf) q =
            particle_x buf q + sin (time * 0.5 + (particle_y buf q - 0.03)) * 0.01
       \<and> particle_y (snow_loop time 1 buf) q =
            (if particle_y buf q - 0.03 < - 20 then 20 else particle_y buf q - 0.03)"
proof -
  obtain s0 where s0: "effect env = Inr (Some s0)"
    and len: "length (snow_positions s0) = 4500"
    using effect_mounted[OF assms(1,2)] by blast
  have "3 * p + 2 < length (snow_positions s0)"
    using assms(3) len by simp
  then have "particle_z (snow_positions (run evs s0)) p = particle_z (snow_positions s0) p"
    using run_depth[of evs s0 p] by blast
  then have first: "\<exists>s0. effect env = Inr (Some s0)
            \<and> particle_z (snow_positions (run evs s0)) p = particle_z (snow_positions s0) p"
    using s0 by blast
  have q1: "3 * q + 1 < length buf"
    using assms(4) by simp
  show ?thesis
    using first length_snow_loop[of time 1 buf] snow_loop_depth[OF assms(4), of time]
      snow_loop_drift[OF q1, of time] snow_loop_height[OF q1, of time]
    by blast
qed

theorem snow_update_frame_condition_witness:
  "random_in_range (env_random example_env) \<and> env_mount example_env = Some (800, 600)
   \<and> (7::nat) < 1500 \<and> 3 * 0 + 2 < length [1, 2, 3 :: real]
   \<and> (\<exists>s0. effect example_env = Inr (Some s0)
         \<and> particle_z (snow_positions (run [AnimationFrame 1, AnimationFrame 2] s0)) 7
             = particle_z (snow_positions s0) 7)
   \<and> length (snow_loop 0 1 [1, 2, 3]) = 3
   \<and> particle_z (snow_loop 0 1 [1, 2, 3]) 0 = 3
   \<and> particle_y (snow_loop 0 1 [1, 2, 3]) 0 = 1.97"
proof -
  have h3: "(7::nat) < 1500" by simp
  have h4: "3 * 0 + 2 < length [1, 2, 3 :: real]" by simp
  note inst = snow_update_frame_condition[OF example_env_facts h3 h4,
      where evs = "[AnimationFrame 1, AnimationFrame 2]" and time = 0]
  have "length (snow_loop 0 1 [1, 2, 3 :: real]) = length [1, 2, 3 :: real]
      \<and> particle_z (snow_loop 0 1 [1, 2, 3]) 0 = particle_z [1, 2, 3] 0
      \<and> particle_y (snow_loop 0 1 [1, 2, 3]) 0 =
          (if particle_y [1, 2, 3] 0 - 0.03 < - 20 then 20 else particle_y [1, 2, 3] 0 - 0.03)"
    using inst by blast
  then have "length (snow_loop 0 1 [1, 2, 3]) = 3 \<and> particle_z (snow_loop 0 1 [1, 2, 3]) 0 = 3
      \<and> particle_y (snow_loop 0 1 [1, 2, 3]) 0 = 1.97"
    by (simp add: particle_z_def particle_y_def)
  then show ?thesis
    using example_env_facts h3 h4 inst by blast
qed


section \<open>Resize, missing resources and teardown\<close>

text \<open>
  C6. A scene mounted in an 800 by 600 container has aspect 800/600 and renderer and
  compositor of that size; when the window then reports a resize with the container
  at 400 by 300, the handler sets the aspect to 400/300, the renderer and the
  compositor to 400 by 300 and the pixel-ratio uniform to \<open>min devicePixelRatio 2\<close>,
  which is at most 2, and is 2 for a device pixel ratio of 3.
\<close>

theorem resize_800x600_to_400x300:
  assumes "random_in_range (env_random env)" and "env_mount env = Some (800, 600)"
  shows "\<exists>s0. effect env = Inr (Some s0)
          \<and> camera_aspect s0 = Some (800 / 600)
          \<and> renderer_size s0 = (800, 600) \<and> composer_size s0 = (800, 600)
          \<and> camera_aspect (dispatch (WindowResize (Some (400, 300)) dpr) (run evs s0)) = Some (400 / 300)
          \<and> renderer_size (dispatch (WindowResize (Some (400, 300)) dpr) (run evs s0)) = (400, 300)
          \<and> composer_size (dispatch (WindowResize (Some (400, 300)) dpr) (run evs s0)) = (400, 300)
          \<and> globalUniforms_uPixelRatio (dispatch (WindowResize (Some (400, 300)) dpr) (run evs s0))
              = min dpr 2
          \<and> globalUniforms_uPixelRatio (dispatch (WindowResize (Some (400, 300)) dpr) (run evs s0)) \<le> 2
          \<and> globalUniforms_uPixelRatio (dispatch (WindowResize (Some (400, 300)) 3) (run evs s0)) = 2"
proof -
  obtain s0 where s0: "effect env = Inr (Some s0)"
    and a: "camera_aspect s0 = js_div (real (800::nat)) (real (600::nat))"
    and sz: "renderer_size s0 = (800, 600)" "composer_size s0 = (800, 600)"
    and l: "resize_listener s0"
    using effect_mounted[OF assms] by blast
  have d: "dispatch (WindowResize (Some (400, 300)) x) (run evs s0)
           = onWindowResize (Some (400, 300)) x (run evs s0)" for x
    using l by simp
  have a0: "camera_aspect s0 = Some (800 / 600)"
    unfolding a by (simp add: js_div_def)
  have a1: "camera_aspect (onWindowResize (Some (400, 300)) dpr (run evs s0)) = Some (400 / 300)"
    unfolding onWindowResize_written by (simp add: js_div_def)
  show ?thesis
    using s0 a0 a1 sz l by (intro exI[of _ s0]) (simp add: onWindowResize_written)
qed

theorem resize_800x600_to_400x300_witness:
  "random_in_range (env_random example_env) \<and> env_mount example_env = Some (800, 600)
   \<and> (\<exists>s0. effect example_env = Inr (Some s0)
         \<and> camera_aspect s0 = Some (800 / 600)
         \<and> camera_aspect (dispatch (WindowResize (Some (400, 300)) 3) (run [AnimationFrame 1] s0))
             = Some (400 / 300)
         \<and> renderer_size (dispatch (WindowResize (Some (400, 300)) 3) (run [AnimationFrame 1] s0))
             = (400, 300)
         \<and> composer_size (dispatch (WindowResize (Some (400, 300)) 3) (run [AnimationFrame 1] s0))
             = (400, 300)
         \<and> globalUniforms_uPixelRatio
              (dispatch (WindowResize (Some (400, 300)) 3) (run [AnimationFrame 1] s0)) = 2)"
proof -
  obtain s0 where "effect example_env = Inr (Some s0)"
    and "camera_aspect s0 = Some (800 / 600)"
    and "camera_aspect (dispatch (WindowResize (Some (400, 300)) 3) (run [AnimationFrame 1] s0))
             = Some (400 / 300)"
    and "renderer_size (dispatch (WindowResize (Some (400, 300)) 3) (run [AnimationFrame 1] s0))
             = (400, 300)"
    and "composer_size (dispatch (WindowResize (Some (400, 300)) 3) (run [AnimationFrame 1] s0))
             = (400, 300)"
    and "globalUniforms_uPixelRatio
              (dispatch (WindowResize (Some (400, 300)) 3) (run [AnimationFrame 1] s0)) = 2"
    using resize_800x600_to_400x300[OF example_env_facts, where evs = "[AnimationFrame 1]" and dpr = 3]
    by (elim exE conjE)
  then show ?thesis
    using example_env_facts by (intro conjI exI[of _ s0])
qed

text \<open>
  C8. Without a 2D context \<open>createBokehTexture\<close> still returns a texture, with a
  blank canvas, and the scene is built with it; without a mount container the effect
  returns at once and builds nothing.
\<close>

theorem missing_context_and_missing_mount:
  assumes "random_in_range (env_random env)"
  shows "createBokehTexture False =
           \<lparr> tex_width = 64, tex_height = 64, tex_image = Blank, tex_disposed = False \<rparr>
       \<and> (\<exists>s0. effect (env\<lparr> env_mount := Some (w, h), env_context2d := False \<rparr>) = Inr (Some s0)
              \<and> globalUniforms_pointTexture s0 = createBokehTexture False)
       \<and> effect (env\<lparr> env_mount := None \<rparr>) = Inr None"
proof -
  have r: "random_in_range (env_random (env\<lparr> env_mount := Some (w, h), env_context2d := False \<rparr>))"
    using assms by simp
  have m: "env_mount (env\<lparr> env_mount := Some (w, h), env_context2d := False \<rparr>) = Some (w, h)"
    by simp
  have "\<exists>s0. effect (env\<lparr> env_mount := Some (w, h), env_context2d := False \<rparr>) = Inr (Some s0)
              \<and> globalUniforms_pointTexture s0 = createBokehTexture False"
    using effect_mounted[OF r m] by auto
  moreover have "effect (env\<lparr> env_mount := None \<rparr>) = Inr None"
    by (simp add: effect_def)
  moreover have "createBokehTexture False =
           \<lparr> tex_width = 64, tex_height = 64, tex_image = Blank, tex_disposed = False \<rparr>"
    by (simp add: createBokehTexture_def)
  ultimately show ?thesis
    by blast
qed

theorem missing_context_and_missing_mount_witness:
  "random_in_range (env_random example_env)
   \<and> (\<exists>s0. effect (example_env\<lparr> env_mount := Some (800, 600), env_context2d := False \<rparr>)
               = Inr (Some s0)
         \<and> tex_image (globalUniforms_pointTexture s0) = Blank)
   \<and> effect (example_env\<lparr> env_mount := None \<rparr>) = Inr None"
proof -
  note inst = missing_context_and_missing_mount[OF example_env_facts(1), where w = 800 and h = 600]
  obtain s0 where
    e: "effect (example_env\<lparr> env_mount := Some (800, 600), env_context2d := False \<rparr>) = Inr (Some s0)"
    and t: "globalUniforms_pointTexture s0 = createBokehTexture False"
    using inst by (elim exE conjE)
  have n: "effect (example_env\<lparr> env_mount := None \<rparr>) = Inr None"
    using inst by (elim exE conjE)
  have b: "tex_image (globalUniforms_pointTexture s0) = Blank"
    unfolding t by (simp add: createBokehTexture_def)
  show ?thesis
    using example_env_facts(1) e b n by (intro conjI exI[of _ s0])
qed

text \<open>
  C9, as the code has it. After the teardown of a mounted scene no event changes the
  scene any more: no frame is rendered, the time uniform and the snow buffer stay as
  they are, and a resize updates nothing. No callback is scheduled, the resize
  listener is removed, the renderer is disposed and the scene is emptied. The bokeh
  texture is the one that was built; the teardown does not dispose it.
\<close>

theorem teardown_stops_frames_and_resizes:
  assumes "random_in_range (env_random env)" and "env_mount env = Some (w, h)"
  shows "\<exists>s0. effect env = Inr (Some s0)
          \<and> run evs2 (cleanup (run evs1 s0)) = cleanup (run evs1 s0)
          \<and> globalUniforms_uTime (run evs2 (cleanup (run evs1 s0))) = globalUniforms_uTime (run evs1 s0)
          \<and> snow_positions (run evs2 (cleanup (run evs1 s0))) = snow_positions (run evs1 s0)
          \<and> frames_rendered (run evs2 (cleanup (run evs1 s0))) = frames_rendered (run evs1 s0)
          \<and> raf_pending (cleanup (run evs1 s0)) = []
          \<and> \<not> resize_listener (cleanup (run evs1 s0))
          \<and> renderer_disposed (cleanup (run evs1 s0))
          \<and> scene_children (cleanup (run evs1 s0)) = []
          \<and> globalUniforms_pointTexture (cleanup (run evs1 s0)) = createBokehTexture (env_context2d env)
          \<and> \<not> tex_disposed (globalUniforms_pointTexture (cleanup (run evs1 s0)))"
proof -
  obtain s0 where s0: "effect env = Inr (Some s0)"
    and p: "raf_pending s0 = [1]" "animationFrameId s0 = Some 1"
    and t: "globalUniforms_pointTexture s0 = createBokehTexture (env_context2d env)"
    using effect_mounted[OF assms] by blast
  have "raf_pending s0 = [] \<or> animationFrameId s0 = Some (hd (raf_pending s0)) \<and> length (raf_pending s0) = 1"
    using p by simp
  then have c: "raf_pending (cleanup (run evs1 s0)) = []"
    using cleanup_cancels[OF run_schedule] by blast
  have idle: "run evs2 (cleanup (run evs1 s0)) = cleanup (run evs1 s0)"
    using idle_run[OF c] by simp
  have nd: "\<not> tex_disposed (createBokehTexture (env_context2d env))"
    by (simp add: createBokehTexture_def)
  show ?thesis
    using s0 c t nd by (intro exI[of _ s0]) (simp add: idle)
qed

theorem teardown_stops_frames_and_resizes_witness:
  "random_in_range (env_random example_env) \<and> env_mount example_env = Some (800, 600)
   \<and> (\<exists>s0. effect example_env = Inr (Some s0)
         \<and> run [AnimationFrame 2, WindowResize (Some (400, 300)) 1]
               (cleanup (run [AnimationFrame 1] s0)) = cleanup (run [AnimationFrame 1] s0)
         \<and> globalUniforms_uTime
               (run [AnimationFrame 2, WindowResize (Some (400, 300)) 1]
                  (cleanup (run [AnimationFrame 1] s0)))
             = globalUniforms_uTime (run [AnimationFrame 1] s0)
         \<and> raf_pending (cleanup (run [AnimationFrame 1] s0)) = []
         \<and> renderer_disposed (cleanup (run [AnimationFrame 1] s0)))"
proof -
  obtain s0 where "effect example_env = Inr (Some s0)"
    and "run [AnimationFrame 2, WindowResize (Some (400, 300)) 1]
               (cleanup (run [AnimationFrame 1] s0)) = cleanup (run [AnimationFrame 1] s0)"
    and "globalUniforms_uTime
               (run [AnimationFrame 2, WindowResize (Some (400, 300)) 1]
                  (cleanup (run [AnimationFrame 1] s0)))
             = globalUniforms_uTime (run [AnimationFrame 1] s0)"
    and "raf_pending (cleanup (run [AnimationFrame 1] s0)) = []"
    and "renderer_disposed (cleanup (run [AnimationFrame 1] s0))"
    using teardown_stops_frames_and_resizes[OF example_env_facts,
      of "[AnimationFrame 2, WindowResize (Some (400, 300)) 1]" "[AnimationFrame 1]"]
    by (elim exE conjE)
  then show ?thesis
    using example_env_facts by (intro conjI exI[of _ s0])
qed

text \<open>
  The claim of C9 that the teardown releases the texture fails: mounting in the
  example environment and unmounting at once leaves the bokeh texture undisposed.
\<close>

theorem teardown_keeps_texture:
  "map_sum id (map_option (tex_disposed \<circ> globalUniforms_pointTexture))
     (mount_then_unmount example_env) = Inr (Some False)"
proof -
  obtain s0 where s0: "effect example_env = Inr (Some s0)"
    and t: "globalUniforms_pointTexture s0 = createBokehTexture (env_context2d example_env)"
    using effect_mounted[OF example_env_facts] by blast
  have "\<not> tex_disposed (createBokehTexture (env_context2d example_env))"
    by (simp add: createBokehTexture_def)
  then show ?thesis
    by (simp add: mount_then_unmount_def s0 t)
qed

end
